theory Spec2Isabelle
  imports Main "HOL-Library.Word"
begin

section \<open>cannyfs: the deferred-operation engine of cannyfs.cpp\<close>

text \<open>
  The model follows \<^verbatim>\<open>src/example/cannyfs.cpp\<close>. Global variables of the source
  (\<^verbatim>\<open>options\<close>, \<^verbatim>\<open>eventId\<close>, \<^verbatim>\<open>filemap\<close>, \<^verbatim>\<open>waitingEvents\<close>, \<^verbatim>\<open>fhs\<close>, \<^verbatim>\<open>freefhs\<close>,
  \<^verbatim>\<open>closes\<close>, \<^verbatim>\<open>workQueue\<close>) are the fields of one state record that every function
  takes and returns. A call that suspends its thread (a locked mutex, a condition
  variable whose condition no other thread has made true) has the outcome \<open>Blocks\<close>;
  \<^verbatim>\<open>abort()\<close> and \<^verbatim>\<open>std::terminate\<close> have the outcome \<open>Aborts\<close>; an access through an
  index outside \<^verbatim>\<open>fhs\<close> has the outcome \<open>Undefined\<close>.
\<close>

subsection \<open>Machine integers\<close>

text \<open>\<^verbatim>\<open>long long\<close> and \<^verbatim>\<open>int\<close> values are kept as integers; the two conversions the
  source performs are written out: the wrap of the 64-bit atomic counter on increment
  and the narrowing of a \<^verbatim>\<open>long long\<close> passed to a \<^verbatim>\<open>function<int(int)>\<close>.\<close>

definition llong_wrap :: "int \<Rightarrow> int" where
  "llong_wrap x = sint (word_of_int x :: 64 word)"

definition int_narrow :: "int \<Rightarrow> int" where
  "int_narrow x = sint (word_of_int x :: 32 word)"

subsection \<open>Data\<close>

text \<open>\<^verbatim>\<open>struct cannyfs_options\<close> with its default member initialisers. \<open>eagercreate\<close> is
  read by \<^verbatim>\<open>cannyfs_create\<close> but is not declared in the struct of the source; it is kept
  as one more field, and no default is assumed for it.\<close>

record cannyfs_options =
  eagerlink :: bool
  eagerchmod :: bool
  veryeageraccess :: bool
  eageraccess :: bool
  eagerutimens :: bool
  eagerchown :: bool
  eagerclose :: bool
  closeverylate :: bool
  restrictivedirs :: bool
  eagerfsync :: bool
  ignorefsync :: bool
  numThreads :: int
  eagercreate :: bool

definition default_options :: "bool \<Rightarrow> cannyfs_options" where
  "default_options ec =
     \<lparr> eagerlink = True, eagerchmod = True, veryeageraccess = True, eageraccess = True,
       eagerutimens = True, eagerchown = True, eagerclose = True, closeverylate = True,
       restrictivedirs = False, eagerfsync = True, ignorefsync = True, numThreads = 16,
       eagercreate = ec \<rparr>"

definition JUST_BARRIER :: int where
  "JUST_BARRIER = 0"

definition LOCK_WHOLE :: int where
  "LOCK_WHOLE = 1"

text \<open>\<^verbatim>\<open>struct cannyfs_filedata\<close>: the mutex \<^verbatim>\<open>lock\<close> (held or free) and \<^verbatim>\<open>lastEventId\<close>.
  The condition variable \<^verbatim>\<open>processed\<close> has no state of its own; its broadcasts are
  recorded in the event log.\<close>

record cannyfs_filedata =
  locked :: bool
  lastEventId :: int

text \<open>\<^verbatim>\<open>struct cannyfs_filehandle\<close>. Every member function takes the handle's own mutex
  for its whole body, so each is one atomic step and that mutex is not a field.\<close>

record cannyfs_filehandle =
  fd :: int
  pipefds :: "int \<times> int"

definition new_filehandle :: cannyfs_filehandle where
  "new_filehandle = \<lparr> fd = - 1, pipefds = (- 1, - 1) \<rparr>"

text \<open>The two fields of \<^verbatim>\<open>fuse_file_info\<close> the source reads and writes. \<^verbatim>\<open>fh\<close> is a
  \<^verbatim>\<open>uint64_t\<close>: a value stored in it is taken modulo \<open>2 ^ 64\<close>.\<close>

record fuse_file_info =
  flags :: int
  fh :: nat

definition u64 :: "nat \<Rightarrow> nat" where
  "u64 n = n mod 2 ^ 64"

text \<open>The system calls of the modelled callbacks, and what the code leaves behind for an
  observer: the calls in the order they were made, the barriers constructed, the
  broadcasts on condition variables, and the lines written to stderr.\<close>

datatype syscall =
    SysLstat string
  | SysFstat int
  | SysAccess string int
  | SysOpendir string
  | SysChmod string nat
  | SysOpen string int "nat option"
  | SysClose int
  | SysDup int
  | SysFsync int
  | SysFdatasync int
  | SysPwrite int string nat int

datatype event =
    Sys syscall
  | ReaderCtor string int
  | WriterCtor string int int
  | NotifyProcessed string
  | NotifyOpened nat
  | StderrError nat

text \<open>The result of a system call: \<open>Ok n\<close> is the non-negative return value (a
  descriptor for \<^verbatim>\<open>open\<close> and \<^verbatim>\<open>dup\<close>, the data read for \<^verbatim>\<open>lstat\<close>, a directory stream
  for \<^verbatim>\<open>opendir\<close>, 0 otherwise); \<open>Err e\<close> is the return value -1 (NULL for
  \<^verbatim>\<open>opendir\<close>) with \<^verbatim>\<open>errno\<close> set to \<open>e\<close>.\<close>

datatype sysres = Ok nat | Err nat

definition ret :: "sysres \<Rightarrow> int" where
  "ret r = (case r of Ok n \<Rightarrow> int n | Err e \<Rightarrow> - 1)"

text \<open>What the program does not fix: the operating system (the result of a call, which
  may depend on everything that happened before), whether \<^verbatim>\<open>HAVE_FDATASYNC\<close> is
  defined, when \<^verbatim>\<open>std::vector::push_back\<close> reallocates (by the size before the push), and
  the value a lambda yields when it runs off its end without a \<^verbatim>\<open>return\<close>.\<close>

record platform =
  sys :: "event list \<Rightarrow> syscall \<Rightarrow> sysres"
  have_fdatasync :: bool
  vec_realloc :: "nat \<Rightarrow> bool"
  fallthrough :: int

text \<open>The lambdas handed to \<^verbatim>\<open>cannyfs_add_write\<close>, by the callback that builds them, with
  the values they capture; and the wrappers of \<^verbatim>\<open>cannyfs_add_write\<close> that capture one path
  (and a copy of the \<^verbatim>\<open>fuse_file_info\<close>) around them.\<close>

datatype pathbody = ChmodBody nat

datatype fibody = CreateBody nat | FlushBody | ReleaseBody | FsyncBody int

datatype closure =
    PathClosure string pathbody
  | FiClosure string fuse_file_info fibody

record state =
  options :: cannyfs_options
  eventId :: int
  filemap :: "string \<rightharpoonup> cannyfs_filedata"
  waitingEvents :: "int set"
  fhs :: "cannyfs_filehandle list"
  freefhs :: "nat list"
  closes :: "int list"
  workQueue :: "(int \<times> closure) list"
  trace :: "event list"

definition init_state :: "cannyfs_options \<Rightarrow> state" where
  "init_state opts =
     \<lparr> options = opts, eventId = 0, filemap = Map.empty, waitingEvents = {},
       fhs = [], freefhs = [], closes = [], workQueue = [], trace = [] \<rparr>"

datatype 'a outcome = Returns 'a state | Blocks state | Aborts state | Undefined

definition bnd :: "(state \<Rightarrow> 'a outcome) \<Rightarrow> ('a \<Rightarrow> state \<Rightarrow> 'b outcome) \<Rightarrow> state \<Rightarrow> 'b outcome" where
  "bnd m f s =
     (case m s of
        Returns a s' \<Rightarrow> f a s'
      | Blocks s' \<Rightarrow> Blocks s'
      | Aborts s' \<Rightarrow> Aborts s'
      | Undefined \<Rightarrow> Undefined)"

definition emit :: "event \<Rightarrow> state \<Rightarrow> state" where
  "emit e s = s\<lparr>trace := trace s @ [e]\<rparr>"

definition syscall_do :: "platform \<Rightarrow> syscall \<Rightarrow> state \<Rightarrow> sysres outcome" where
  "syscall_do pf c s = Returns (sys pf (trace s) c) (emit (Sys c) s)"

subsection \<open>Handles\<close>

text \<open>\<^verbatim>\<open>getnewfh\<close>: a slot popped from \<^verbatim>\<open>freefhs\<close>, or a new one appended to \<^verbatim>\<open>fhs\<close>. The
  iterator is the slot's index, which is what the callers store in \<^verbatim>\<open>fi->fh\<close>.\<close>

definition getnewfh :: "state \<Rightarrow> nat \<times> state" where
  "getnewfh s =
     (case freefhs s of
        toreturn # rest \<Rightarrow> (toreturn, s\<lparr>freefhs := rest\<rparr>)
      | [] \<Rightarrow> (length (fhs s), s\<lparr>fhs := fhs s @ [new_filehandle]\<rparr>))"

text \<open>\<^verbatim>\<open>cannyfs_filehandle* getcfh(int fd)\<close>, \<^verbatim>\<open>return &fhs[fd]\<close>. Every caller passes
  \<^verbatim>\<open>fi->fh\<close>, so the 64-bit value is narrowed to \<^verbatim>\<open>int\<close> on the way in. The result is the
  slot the pointer refers to, by its index; a negative \<^verbatim>\<open>fd\<close> or one beyond the table
  refers to no slot.\<close>

definition getcfh :: "nat \<Rightarrow> state \<Rightarrow> nat option" where
  "getcfh fhv s =
     (if 0 \<le> int_narrow (int fhv) \<and> nat (int_narrow (int fhv)) < length (fhs s)
      then Some (nat (int_narrow (int fhv)))
      else None)"

text \<open>A member function called through \<^verbatim>\<open>getcfh(x)->\<close>.\<close>

definition on_cfh :: "nat \<Rightarrow> (nat \<Rightarrow> state \<Rightarrow> 'a outcome) \<Rightarrow> state \<Rightarrow> 'a outcome" where
  "on_cfh fhv m s = (case getcfh fhv s of None \<Rightarrow> Undefined | Some i \<Rightarrow> m i s)"

text \<open>\<^verbatim>\<open>cannyfs_filehandle::setfh\<close> on the slot with index \<open>i\<close>: the store, then
  \<^verbatim>\<open>opened.notify_all()\<close>.\<close>

definition setfh :: "nat \<Rightarrow> int \<Rightarrow> state \<Rightarrow> unit outcome" where
  "setfh i newfd s =
     (if i < length (fhs s)
      then Returns () (emit (NotifyOpened i) (s\<lparr>fhs := (fhs s)[i := (fhs s ! i)\<lparr>fd := newfd\<rparr>]\<rparr>))
      else Undefined)"

text \<open>\<^verbatim>\<open>cannyfs_filehandle::getfh\<close> on the slot with index \<open>i\<close>:
  \<^verbatim>\<open>while (fd == -1) opened.wait(locallock)\<close>. The wait changes nothing the condition
  reads, so the loop is left at once or never.\<close>

definition getfh :: "nat \<Rightarrow> state \<Rightarrow> int outcome" where
  "getfh i s =
     (if i < length (fhs s)
      then (if fd (fhs s ! i) = - 1 then Blocks s else Returns (fd (fhs s ! i)) s)
      else Undefined)"

text \<open>\<^verbatim>\<open>int getfh(const fuse_file_info* fi)\<close>: \<^verbatim>\<open>getcfh(fi->fh)->getfh()\<close>.\<close>

definition getfh_fi :: "fuse_file_info \<Rightarrow> state \<Rightarrow> int outcome" where
  "getfh_fi fi s = on_cfh (fh fi) getfh s"

subsection \<open>The path directory and its locks\<close>

text \<open>A \<^verbatim>\<open>unique_lock<mutex>\<close>: the mutex it is associated with (the record's key in
  \<^verbatim>\<open>filemap\<close>) and whether it owns it.\<close>

record unique_lock =
  ul_mutex :: "string option"
  ul_owns :: bool

definition no_lock :: unique_lock where
  "no_lock = \<lparr> ul_mutex = None, ul_owns = False \<rparr>"

definition set_locked :: "string \<Rightarrow> bool \<Rightarrow> state \<Rightarrow> state" where
  "set_locked p b s =
     (case filemap s p of
        None \<Rightarrow> s
      | Some d \<Rightarrow> s\<lparr>filemap := (filemap s)(p \<mapsto> d\<lparr>locked := b\<rparr>)\<rparr>)"

text \<open>The destructor of a \<^verbatim>\<open>unique_lock\<close> unlocks the mutex it owns.\<close>

definition unique_lock_dtor :: "unique_lock \<Rightarrow> state \<Rightarrow> state" where
  "unique_lock_dtor l s =
     (case ul_mutex l of
        Some p \<Rightarrow> if ul_owns l then set_locked p False s else s
      | None \<Rightarrow> s)"

text \<open>\<^verbatim>\<open>unique_lock::release\<close> gives the association up and does not unlock.\<close>

definition unique_lock_release :: "unique_lock \<Rightarrow> unique_lock" where
  "unique_lock_release l = no_lock"

text \<open>\<^verbatim>\<open>cannyfs_filemap::get\<close>. The result is the record found or created (its key) and the
  lock taken on its mutex. The map's own \<^verbatim>\<open>shared_mutex\<close> is taken and released inside
  the call and is not a field. Taking a mutex that is held suspends the caller.\<close>

definition filemap_get :: "string \<Rightarrow> bool \<Rightarrow> state \<Rightarrow> (string option \<times> unique_lock) outcome" where
  "filemap_get path always s =
     (case filemap s path of
        Some d \<Rightarrow>
          if locked d then Blocks s
          else Returns (Some path, \<lparr> ul_mutex = Some path, ul_owns = True \<rparr>)
                 (s\<lparr>filemap := (filemap s)(path \<mapsto> d\<lparr>locked := True\<rparr>)\<rparr>)
      | None \<Rightarrow>
          if always
          then Returns (Some path, \<lparr> ul_mutex = Some path, ul_owns = True \<rparr>)
                 (s\<lparr>filemap := (filemap s)(path \<mapsto> \<lparr> locked = True, lastEventId = 0 \<rparr>)\<rparr>)
          else Returns (None, no_lock) s)"

subsection \<open>Barriers\<close>

datatype cannyfs_reader_obj = Reader (r_lock: unique_lock) (r_fileobj: "string option")

text \<open>The constructor of \<^verbatim>\<open>cannyfs_reader\<close>. The loop
  \<^verbatim>\<open>while (waitingEvents.find(eventId) != waitingEvents.end()) processed.wait(locallock)\<close>
  releases the record's mutex and sleeps; nothing in the waiting thread changes
  \<^verbatim>\<open>waitingEvents\<close>, so the loop is left at once or the thread stays suspended.\<close>

definition reader_waits :: "string option \<Rightarrow> state \<Rightarrow> bool" where
  "reader_waits fileobj s =
     (case fileobj of
        None \<Rightarrow> False
      | Some p \<Rightarrow>
          (case filemap s p of
             None \<Rightarrow> False
           | Some d \<Rightarrow> lastEventId d \<in> waitingEvents s))"

definition cannyfs_reader :: "string \<Rightarrow> int \<Rightarrow> state \<Rightarrow> cannyfs_reader_obj outcome" where
  "cannyfs_reader path flag s =
     bnd (filemap_get path (flag = LOCK_WHOLE))
       (\<lambda>(fileobj, locallock) s1.
          if reader_waits fileobj s1 then Blocks (unique_lock_dtor locallock s1)
          else if flag = LOCK_WHOLE then Returns (Reader locallock fileobj) s1
          else Returns (Reader no_lock fileobj) (unique_lock_dtor locallock s1))
       (emit (ReaderCtor path flag) s)"

definition cannyfs_reader_dtor :: "cannyfs_reader_obj \<Rightarrow> state \<Rightarrow> state" where
  "cannyfs_reader_dtor b s = unique_lock_dtor (r_lock b) s"

text \<open>\<^verbatim>\<open>cannyfs_dirreader\<close>: a reader on the empty path under \<^verbatim>\<open>restrictivedirs\<close>.\<close>

definition cannyfs_dirreader :: "string \<Rightarrow> int \<Rightarrow> state \<Rightarrow> cannyfs_reader_obj outcome" where
  "cannyfs_dirreader path flag s =
     cannyfs_reader (if restrictivedirs (options s) then '''' else path) flag s"

datatype cannyfs_writer_obj =
  Writer (w_lock: unique_lock) (w_fileobj: "string option")
    (w_generalwriter: "cannyfs_writer_obj option") (w_eventId: int) (w_global: bool)

definition mutex_held :: "string \<Rightarrow> state \<Rightarrow> bool" where
  "mutex_held p s = (case filemap s p of None \<Rightarrow> False | Some d \<Rightarrow> locked d)"

text \<open>The constructor of \<^verbatim>\<open>cannyfs_writer\<close>. The member \<^verbatim>\<open>global\<close> is initialised with
  \<^verbatim>\<open>path != ""\<close>, as the source has it.\<close>

function cannyfs_writer :: "string \<Rightarrow> int \<Rightarrow> int \<Rightarrow> state \<Rightarrow> cannyfs_writer_obj outcome" where
  "cannyfs_writer path flag eid s =
     (case filemap_get path True
             (if path \<noteq> ''''
              then (emit (WriterCtor path flag eid) s)
                     \<lparr>waitingEvents := insert eid (waitingEvents s)\<rparr>
              else emit (WriterCtor path flag eid) s) of
        Returns r s2 \<Rightarrow>
          if \<not> (path \<noteq> '''') \<and> restrictivedirs (options s2)
          then (case cannyfs_writer '''' JUST_BARRIER eid s2 of
                  Returns g s3 \<Rightarrow>
                    Returns (Writer (if flag \<noteq> LOCK_WHOLE then unique_lock_release (snd r) else snd r)
                               (fst r) (Some g) eid (path \<noteq> '''')) s3
                | Blocks s3 \<Rightarrow> Blocks s3
                | Aborts s3 \<Rightarrow> Aborts s3
                | Undefined \<Rightarrow> Undefined)
          else Returns (Writer (if flag \<noteq> LOCK_WHOLE then unique_lock_release (snd r) else snd r)
                          (fst r) None eid (path \<noteq> '''')) s2
      | Blocks s2 \<Rightarrow> Blocks s2
      | Aborts s2 \<Rightarrow> Aborts s2
      | Undefined \<Rightarrow> Undefined)"
  by pat_completeness auto
termination
proof (relation "measure (\<lambda>(path, flag, eid, s). if mutex_held '''' s then 0 else 1)")
  show "wf (measure (\<lambda>(path, flag, eid, s). if mutex_held '''' s then 0 else (1::nat)))"
    by simp
next
  fix path :: string and flag eid :: int and s x1 x2
  assume get: "filemap_get path True
          (if path \<noteq> ''''
           then (emit (WriterCtor path flag eid) s)\<lparr>waitingEvents := insert eid (waitingEvents s)\<rparr>
           else emit (WriterCtor path flag eid) s) = Returns x1 x2"
    and rec: "\<not> (path \<noteq> '''') \<and> restrictivedirs (options x2)"
  from rec have p: "path = ''''" by simp
  from get p have "mutex_held '''' x2 \<and> \<not> mutex_held '''' s"
    by (auto simp: filemap_get_def mutex_held_def emit_def split: option.splits if_splits)
  then show "((''''::string, JUST_BARRIER, eid, x2), (path, flag, eid, s))
        \<in> measure (\<lambda>(path, flag, eid, s). if mutex_held '''' s then 0 else 1)"
    by simp
qed

declare cannyfs_writer.simps [simp del]

text \<open>\<^verbatim>\<open>unique_lock::lock\<close> as the destructor of the writer uses it: only when the lock
  does not own a mutex. A lock with no mutex throws \<^verbatim>\<open>std::system_error\<close>, which in a
  destructor ends the process.\<close>

definition lock_unless_owned :: "unique_lock \<Rightarrow> state \<Rightarrow> unique_lock outcome" where
  "lock_unless_owned l s =
     (if ul_owns l then Returns l s
      else (case ul_mutex l of
              None \<Rightarrow> Aborts s
            | Some p \<Rightarrow>
                if mutex_held p s then Blocks s
                else Returns (l\<lparr>ul_owns := True\<rparr>) (set_locked p True s)))"

definition notify_processed :: "string option \<Rightarrow> state \<Rightarrow> unit outcome" where
  "notify_processed fileobj s =
     (case fileobj of
        None \<Rightarrow> Undefined
      | Some p \<Rightarrow> Returns () (emit (NotifyProcessed p) s))"

text \<open>The destructor of \<^verbatim>\<open>cannyfs_writer\<close>, followed by the destruction of its member
  \<^verbatim>\<open>lock\<close>. It erases the ticket under \<^verbatim>\<open>!global\<close>, as the source has it.\<close>

fun cannyfs_writer_dtor :: "cannyfs_writer_obj \<Rightarrow> state \<Rightarrow> unit outcome" where
  "cannyfs_writer_dtor (Writer lk fileobj gw eid glob) s =
     (case lock_unless_owned lk
             (if \<not> glob then s\<lparr>waitingEvents := waitingEvents s - {eid}\<rparr> else s) of
        Returns lk' s1 \<Rightarrow>
          (case notify_processed fileobj s1 of
             Returns u s2 \<Rightarrow>
               (case gw of
                  None \<Rightarrow> Returns () (unique_lock_dtor lk' s2)
                | Some g \<Rightarrow>
                    (case cannyfs_writer_dtor g s2 of
                       Returns v s3 \<Rightarrow> Returns () (unique_lock_dtor lk' s3)
                     | Blocks s3 \<Rightarrow> Blocks s3
                     | Aborts s3 \<Rightarrow> Aborts s3
                     | Undefined \<Rightarrow> Undefined))
           | Blocks s2 \<Rightarrow> Blocks s2
           | Aborts s2 \<Rightarrow> Aborts s2
           | Undefined \<Rightarrow> Undefined)
      | Blocks s1 \<Rightarrow> Blocks s1
      | Aborts s1 \<Rightarrow> Aborts s1
      | Undefined \<Rightarrow> Undefined)"

subsection \<open>The late-close reservoir\<close>

text \<open>\<^verbatim>\<open>~cannyfs_closer\<close>: \<^verbatim>\<open>cannyfs_negerrorchecker(close(fd))\<close>, which prints \<^verbatim>\<open>errno\<close>
  to stderr when \<^verbatim>\<open>close\<close> fails.\<close>

definition closer_dtor :: "platform \<Rightarrow> int \<Rightarrow> state \<Rightarrow> state" where
  "closer_dtor pf cfd s =
     (case sys pf (trace s) (SysClose cfd) of
        Ok n \<Rightarrow> emit (Sys (SysClose cfd)) s
      | Err e \<Rightarrow> emit (StderrError e) (emit (Sys (SysClose cfd)) s))"

text \<open>\<^verbatim>\<open>closes.push_back(x)\<close> with \<open>x\<close> an \<^verbatim>\<open>int\<close>: the argument is converted to a temporary
  \<^verbatim>\<open>cannyfs_closer\<close>, the vector stores a copy of it (the class has no move constructor,
  its destructor being user-declared), and the temporary is destroyed at the end of
  the statement, which runs \<^verbatim>\<open>~cannyfs_closer\<close> on the descriptor just stored. When the
  vector reallocates, the old elements are destroyed after being copied.\<close>

definition closes_push_back :: "platform \<Rightarrow> int \<Rightarrow> state \<Rightarrow> state" where
  "closes_push_back pf x s =
     closer_dtor pf x
       ((if vec_realloc pf (length (closes s)) then fold (closer_dtor pf) (closes s) s else s)
          \<lparr>closes := closes s @ [x]\<rparr>)"

subsection \<open>Deferred work\<close>

definition errno_ret :: "sysres \<Rightarrow> int" where
  "errno_ret r = (case r of Ok n \<Rightarrow> 0 | Err e \<Rightarrow> - int e)"

text \<open>The lambda of \<^verbatim>\<open>cannyfs_chmod\<close>.\<close>

fun run_pathbody :: "platform \<Rightarrow> pathbody \<Rightarrow> string \<Rightarrow> state \<Rightarrow> int outcome" where
  "run_pathbody pf (ChmodBody mode) path s =
     bnd (syscall_do pf (SysChmod path mode)) (\<lambda>res. Returns (errno_ret res)) s"

text \<open>The lambdas of \<^verbatim>\<open>cannyfs_create\<close>, \<^verbatim>\<open>cannyfs_flush\<close>, \<^verbatim>\<open>cannyfs_release\<close> and
  \<^verbatim>\<open>cannyfs_fsync\<close>. The lambda of \<^verbatim>\<open>cannyfs_create\<close> has no \<^verbatim>\<open>return\<close> after \<^verbatim>\<open>setfh\<close>.\<close>

fun run_fibody :: "platform \<Rightarrow> fibody \<Rightarrow> string \<Rightarrow> fuse_file_info \<Rightarrow> state \<Rightarrow> int outcome" where
  "run_fibody pf (CreateBody mode) path fi s =
     bnd (syscall_do pf (SysOpen path (flags fi) (Some mode)))
       (\<lambda>res. case res of
                 Err e \<Rightarrow> Returns (- int e)
               | Ok n \<Rightarrow> bnd (on_cfh (fh fi) (\<lambda>i. setfh i (int n)))
                           (\<lambda>u. Returns (fallthrough pf))) s"
| "run_fibody pf FlushBody path fi s =
     bnd (getfh_fi fi)
       (\<lambda>f. bnd (syscall_do pf (SysDup f))
          (\<lambda>d. bnd (syscall_do pf (SysClose (ret d)))
             (\<lambda>res. Returns (errno_ret res)))) s"
| "run_fibody pf ReleaseBody path fi s =
     bnd (getfh_fi fi)
       (\<lambda>f. bnd (syscall_do pf (SysClose f)) (\<lambda>res. Returns (ret res))) s"
| "run_fibody pf (FsyncBody isdatasync) path fi s =
     (if have_fdatasync pf \<and> isdatasync \<noteq> 0
      then bnd (getfh_fi fi)
             (\<lambda>f. bnd (syscall_do pf (SysFdatasync f)) (\<lambda>res. Returns (errno_ret res))) s
      else bnd (getfh_fi fi)
             (\<lambda>f. bnd (syscall_do pf (SysFsync f)) (\<lambda>res. Returns (errno_ret res))) s)"

text \<open>The wrappers of \<^verbatim>\<open>cannyfs_add_write\<close> that take a path: a writer barrier in
  \<^verbatim>\<open>LOCK_WHOLE\<close> mode around the lambda. The ticket arrives through a parameter of type
  \<^verbatim>\<open>int\<close>.\<close>

fun run_closure :: "platform \<Rightarrow> closure \<Rightarrow> int \<Rightarrow> state \<Rightarrow> int outcome" where
  "run_closure pf (PathClosure path b) eventIdNow s =
     bnd (cannyfs_writer path LOCK_WHOLE (int_narrow eventIdNow))
       (\<lambda>writer. bnd (run_pathbody pf b path)
          (\<lambda>res. bnd (cannyfs_writer_dtor writer) (\<lambda>u. Returns res))) s"
| "run_closure pf (FiClosure path fi b) eventIdNow s =
     bnd (cannyfs_writer path LOCK_WHOLE (int_narrow eventIdNow))
       (\<lambda>writer. bnd (run_fibody pf b path fi)
          (\<lambda>res. bnd (cannyfs_writer_dtor writer) (\<lambda>u. Returns res))) s"

text \<open>\<^verbatim>\<open>cannyfs_add_write(bool defer, function<int(int)> fun)\<close>: the ticket is taken from
  the counter; the closure runs at once, or is handed to \<^verbatim>\<open>workQueue\<close> and 0 is returned.\<close>

definition cannyfs_add_write :: "platform \<Rightarrow> bool \<Rightarrow> closure \<Rightarrow> state \<Rightarrow> int outcome" where
  "cannyfs_add_write pf defer c s =
     (if \<not> defer
      then run_closure pf c (llong_wrap (eventId s + 1)) (s\<lparr>eventId := llong_wrap (eventId s + 1)\<rparr>)
      else Returns 0
             (s\<lparr>eventId := llong_wrap (eventId s + 1),
                workQueue := workQueue s @ [(llong_wrap (eventId s + 1), c)]\<rparr>))"

text \<open>A task of \<^verbatim>\<open>workQueue\<close> run by a worker thread: the task group runs its tasks in no
  fixed order, so the task is named by its position. Its return value is dropped.\<close>

definition run_task :: "platform \<Rightarrow> nat \<Rightarrow> state \<Rightarrow> int outcome" where
  "run_task pf k s =
     (if k < length (workQueue s)
      then run_closure pf (snd (workQueue s ! k)) (fst (workQueue s ! k))
             (s\<lparr>workQueue := take k (workQueue s) @ drop (Suc k) (workQueue s)\<rparr>)
      else Undefined)"

subsection \<open>The callbacks\<close>

definition cannyfs_getattr :: "platform \<Rightarrow> string \<Rightarrow> state \<Rightarrow> (int \<times> nat option) outcome" where
  "cannyfs_getattr pf path s =
     bnd (cannyfs_reader path JUST_BARRIER)
       (\<lambda>b. bnd (syscall_do pf (SysLstat path))
          (\<lambda>res s'. case res of
                       Err e \<Rightarrow> Returns (- int e, None) (cannyfs_reader_dtor b s')
                     | Ok n \<Rightarrow> Returns (0, Some n) (cannyfs_reader_dtor b s'))) s"

definition cannyfs_access :: "platform \<Rightarrow> string \<Rightarrow> int \<Rightarrow> state \<Rightarrow> int outcome" where
  "cannyfs_access pf path amask s =
     (if veryeageraccess (options s) then Returns 0 s
      else bnd (cannyfs_reader path JUST_BARRIER)
             (\<lambda>b s1.
                if eageraccess (options s1) then Returns 0 (cannyfs_reader_dtor b s1)
                else bnd (syscall_do pf (SysAccess path amask))
                       (\<lambda>res s'. case res of
                                    Err e \<Rightarrow> Returns (- int e) (cannyfs_reader_dtor b s')
                                  | Ok n \<Rightarrow> Returns 0 (cannyfs_reader_dtor b s')) s1) s)"

text \<open>\<^verbatim>\<open>cannyfs_opendir\<close>. On success \<^verbatim>\<open>fi->fh\<close> receives the \<^verbatim>\<open>cannyfs_dirp\<close> that holds
  the directory stream; the stream stands for it here.\<close>

definition cannyfs_opendir :: "platform \<Rightarrow> string \<Rightarrow> fuse_file_info \<Rightarrow> state \<Rightarrow> (int \<times> fuse_file_info) outcome" where
  "cannyfs_opendir pf path fi s =
     bnd (cannyfs_dirreader path JUST_BARRIER)
       (\<lambda>b. bnd (syscall_do pf (SysOpendir path))
          (\<lambda>res s'. case res of
                       Err e \<Rightarrow> Returns (- int e, fi) (cannyfs_reader_dtor b s')
                     | Ok n \<Rightarrow> Returns (0, fi\<lparr>fh := n\<rparr>) (cannyfs_reader_dtor b s'))) s"

definition cannyfs_chmod :: "platform \<Rightarrow> string \<Rightarrow> nat \<Rightarrow> state \<Rightarrow> int outcome" where
  "cannyfs_chmod pf cpath mode s =
     cannyfs_add_write pf (eagerchmod (options s)) (PathClosure cpath (ChmodBody mode)) s"

text \<open>\<^verbatim>\<open>cannyfs_fgetattr\<close>: the barrier, then \<^verbatim>\<open>fstat(fi->fh, stbuf)\<close>, with \<^verbatim>\<open>fi->fh\<close> itself
  (narrowed to the \<^verbatim>\<open>int\<close> that \<^verbatim>\<open>fstat\<close> takes) in the place of a descriptor.\<close>

definition cannyfs_fgetattr :: "platform \<Rightarrow> string \<Rightarrow> fuse_file_info \<Rightarrow> state \<Rightarrow> (int \<times> nat option) outcome" where
  "cannyfs_fgetattr pf path fi s =
     bnd (cannyfs_reader path JUST_BARRIER)
       (\<lambda>b. bnd (syscall_do pf (SysFstat (int_narrow (int (fh fi)))))
          (\<lambda>res s'. case res of
                       Err e \<Rightarrow> Returns (- int e, None) (cannyfs_reader_dtor b s')
                     | Ok n \<Rightarrow> Returns (0, Some n) (cannyfs_reader_dtor b s'))) s"

text \<open>\<^verbatim>\<open>cannyfs_create\<close> and \<^verbatim>\<open>cannyfs_open\<close>: \<^verbatim>\<open>fi->fh = getnewfh() - fhs.begin()\<close> first.\<close>

definition cannyfs_create :: "platform \<Rightarrow> string \<Rightarrow> nat \<Rightarrow> fuse_file_info \<Rightarrow> state \<Rightarrow> (int \<times> fuse_file_info) outcome" where
  "cannyfs_create pf path mode fi s =
     bnd (cannyfs_add_write pf (eagercreate (options (snd (getnewfh s))))
            (FiClosure path (fi\<lparr>fh := u64 (fst (getnewfh s))\<rparr>) (CreateBody mode)))
       (\<lambda>res. Returns (res, fi\<lparr>fh := u64 (fst (getnewfh s))\<rparr>))
       (snd (getnewfh s))"

definition cannyfs_open :: "platform \<Rightarrow> string \<Rightarrow> fuse_file_info \<Rightarrow> state \<Rightarrow> (int \<times> fuse_file_info) outcome" where
  "cannyfs_open pf path fi s =
     bnd (syscall_do pf (SysOpen path (flags fi) None))
       (\<lambda>res. case res of
                 Err e \<Rightarrow> Returns (- int e, fi\<lparr>fh := u64 (fst (getnewfh s))\<rparr>)
               | Ok n \<Rightarrow> bnd (on_cfh (u64 (fst (getnewfh s))) (\<lambda>i. setfh i (int n)))
                           (\<lambda>u. Returns (0, fi\<lparr>fh := u64 (fst (getnewfh s))\<rparr>)))
       (snd (getnewfh s))"

text \<open>\<^verbatim>\<open>cannyfs_write\<close>: \<^verbatim>\<open>abort()\<close>, then the \<^verbatim>\<open>pwrite\<close> of the original example.\<close>

definition abort :: "state \<Rightarrow> unit outcome" where
  "abort s = Aborts s"

definition cannyfs_write :: "platform \<Rightarrow> string \<Rightarrow> string \<Rightarrow> nat \<Rightarrow> int \<Rightarrow> fuse_file_info \<Rightarrow> state \<Rightarrow> int outcome" where
  "cannyfs_write pf path buf sz offs fi s =
     bnd abort
       (\<lambda>u. bnd (getfh_fi fi)
          (\<lambda>f. bnd (syscall_do pf (SysPwrite f buf sz offs))
             (\<lambda>res. Returns (case res of Err e \<Rightarrow> - int e | Ok n \<Rightarrow> int n)))) s"

definition cannyfs_flush :: "platform \<Rightarrow> string \<Rightarrow> fuse_file_info \<Rightarrow> state \<Rightarrow> int outcome" where
  "cannyfs_flush pf cpath fi s =
     (if closeverylate (options s)
      then bnd (getfh_fi fi)
             (\<lambda>f. bnd (syscall_do pf (SysDup f))
                (\<lambda>d s'. Returns 0 (closes_push_back pf (ret d) s'))) s
      else cannyfs_add_write pf (eagerclose (options s)) (FiClosure cpath fi FlushBody) s)"

text \<open>\<^verbatim>\<open>cannyfs_release\<close>: the branch for \<^verbatim>\<open>closeverylate\<close> has no \<^verbatim>\<open>return\<close>, so the call of
  \<^verbatim>\<open>cannyfs_add_write\<close> follows it; the final \<^verbatim>\<open>return 0\<close> of the source is never reached.\<close>

definition cannyfs_release :: "platform \<Rightarrow> string \<Rightarrow> fuse_file_info \<Rightarrow> state \<Rightarrow> int outcome" where
  "cannyfs_release pf cpath fi s =
     (if closeverylate (options s)
      then bnd (getfh_fi fi)
             (\<lambda>f s'. cannyfs_add_write pf (eagerclose (options s')) (FiClosure cpath fi ReleaseBody)
                        (closes_push_back pf f s')) s
      else cannyfs_add_write pf (eagerclose (options s)) (FiClosure cpath fi ReleaseBody) s)"

definition cannyfs_fsync :: "platform \<Rightarrow> string \<Rightarrow> int \<Rightarrow> fuse_file_info \<Rightarrow> state \<Rightarrow> int outcome" where
  "cannyfs_fsync pf cpath isdatasync fi s =
     (if ignorefsync (options s) then Returns 0 s
      else cannyfs_add_write pf (eagerfsync (options s)) (FiClosure cpath fi (FsyncBody isdatasync)) s)"

subsection \<open>Runs of the filesystem\<close>

text \<open>One step of the mounted filesystem: the kernel framework invokes a callback, or a
  worker thread runs a queued task. A step is taken when the call returns; a call that
  blocks, aborts or is undefined takes none.\<close>

datatype call =
    Getattr string
  | Fgetattr string fuse_file_info
  | Access string int
  | Opendir string fuse_file_info
  | Chmod string nat
  | Create string nat fuse_file_info
  | Open string fuse_file_info
  | Pwrite string string nat int fuse_file_info
  | Flush string fuse_file_info
  | Release string fuse_file_info
  | Fsync string int fuse_file_info
  | Work nat

definition returned :: "'a outcome \<Rightarrow> state option" where
  "returned r = (case r of Returns a s' \<Rightarrow> Some s' | Blocks s' \<Rightarrow> None | Aborts s' \<Rightarrow> None | Undefined \<Rightarrow> None)"

fun do_call :: "platform \<Rightarrow> call \<Rightarrow> state \<Rightarrow> state option" where
  "do_call pf (Getattr path) s = returned (cannyfs_getattr pf path s)"
| "do_call pf (Fgetattr path fi) s = returned (cannyfs_fgetattr pf path fi s)"
| "do_call pf (Access path amask) s = returned (cannyfs_access pf path amask s)"
| "do_call pf (Opendir path fi) s = returned (cannyfs_opendir pf path fi s)"
| "do_call pf (Chmod path mode) s = returned (cannyfs_chmod pf path mode s)"
| "do_call pf (Create path mode fi) s = returned (cannyfs_create pf path mode fi s)"
| "do_call pf (Open path fi) s = returned (cannyfs_open pf path fi s)"
| "do_call pf (Pwrite path buf sz offs fi) s = returned (cannyfs_write pf path buf sz offs fi s)"
| "do_call pf (Flush path fi) s = returned (cannyfs_flush pf path fi s)"
| "do_call pf (Release path fi) s = returned (cannyfs_release pf path fi s)"
| "do_call pf (Fsync path ids fi) s = returned (cannyfs_fsync pf path ids fi s)"
| "do_call pf (Work k) s = returned (run_task pf k s)"

fun run_calls :: "platform \<Rightarrow> call list \<Rightarrow> state \<Rightarrow> state option" where
  "run_calls pf [] s = Some s"
| "run_calls pf (c # cs) s =
     (case do_call pf c s of None \<Rightarrow> None | Some s' \<Rightarrow> run_calls pf cs s')"

subsection \<open>Example environments and states\<close>

definition test_platform :: "(event list \<Rightarrow> syscall \<Rightarrow> sysres) \<Rightarrow> platform" where
  "test_platform f = \<lparr> sys = f, have_fdatasync = True, vec_realloc = (\<lambda>n. False), fallthrough = 0 \<rparr>"

text \<open>A store that remembers modes: \<^verbatim>\<open>lstat\<close> yields the mode of the last \<^verbatim>\<open>chmod\<close> made on
  the path, 420 (octal 644) when there was none; every other call succeeds with 0.\<close>

fun mode_after :: "string \<Rightarrow> nat \<Rightarrow> event list \<Rightarrow> nat" where
  "mode_after p m [] = m"
| "mode_after p m (Sys (SysChmod q m') # es) = mode_after p (if q = p then m' else m) es"
| "mode_after p m (e # es) = mode_after p m es"

definition mode_store :: "event list \<Rightarrow> syscall \<Rightarrow> sysres" where
  "mode_store tr c = (case c of SysLstat p \<Rightarrow> Ok (mode_after p 420 tr) | _ \<Rightarrow> Ok 0)"

text \<open>A store on which every call succeeds, \<^verbatim>\<open>open\<close> and \<^verbatim>\<open>dup\<close> with the descriptor
  given; and one on which every call fails with the \<^verbatim>\<open>errno\<close> given.\<close>

definition ok_store :: "nat \<Rightarrow> event list \<Rightarrow> syscall \<Rightarrow> sysres" where
  "ok_store n tr c = (case c of SysOpen p f m \<Rightarrow> Ok n | SysDup f \<Rightarrow> Ok n | _ \<Rightarrow> Ok 0)"

definition failing_store :: "nat \<Rightarrow> event list \<Rightarrow> syscall \<Rightarrow> sysres" where
  "failing_store e tr c = Err e"

text \<open>A directory in which the record of \<open>''/a''\<close> holds \<^verbatim>\<open>lastEventId\<close> 2 while the
  tickets 1 and 2 are in \<^verbatim>\<open>waitingEvents\<close>.\<close>

definition busy_state :: state where
  "busy_state =
     (init_state (default_options True))
       \<lparr> filemap := [''/a'' \<mapsto> \<lparr> locked = False, lastEventId = 2 \<rparr>], waitingEvents := {1, 2} \<rparr>"

definition fi0 :: fuse_file_info where
  "fi0 = \<lparr> flags = 0, fh = 0 \<rparr>"

text \<open>A state whose only handle, number 0, is bound to the descriptor given.\<close>

definition bound_state :: "cannyfs_options \<Rightarrow> int \<Rightarrow> state" where
  "bound_state opts f = (init_state opts)\<lparr>fhs := [new_filehandle\<lparr>fd := f\<rparr>]\<rparr>"

text \<open>The state after \<open>k\<close> deferred calls of \<^verbatim>\<open>chmod\<close> on \<open>''/a''\<close>, each run by a worker before
  the next: the counter stands at \<open>k\<close>, the queue is empty, the tickets 1 to \<open>k\<close>, each as
  the \<^verbatim>\<open>int\<close> it was passed as, are all in \<^verbatim>\<open>waitingEvents\<close>, and the record's
  \<^verbatim>\<open>lastEventId\<close> is 0.\<close>

definition ticket_run :: "nat \<Rightarrow> state \<Rightarrow> bool" where
  "ticket_run k s =
     (eventId s = int k \<and> eagerchmod (options s) \<and> workQueue s = [] \<and>
      waitingEvents s = int_narrow ` {1..int k} \<and>
      (case filemap s ''/a'' of
         None \<Rightarrow> k = 0
       | Some d \<Rightarrow> \<not> locked d \<and> lastEventId d = 0))"

text \<open>A store on which \<^verbatim>\<open>open\<close> of \<open>''/a''\<close> yields descriptor 3, \<^verbatim>\<open>open\<close> of \<open>''/b''\<close> yields
  descriptor 5, \<^verbatim>\<open>open\<close> of any other path fails with \<^verbatim>\<open>errno\<close> 24, and every other call
  succeeds with 0.\<close>

definition path_store :: "event list \<Rightarrow> syscall \<Rightarrow> sysres" where
  "path_store tr c =
     (case c of
        SysOpen p f m \<Rightarrow> if p = ''/a'' then Ok 3 else if p = ''/b'' then Ok 5 else Err 24
      | _ \<Rightarrow> Ok 0)"

text \<open>The handle table after an \<^verbatim>\<open>open\<close> that bound slot 0 to descriptor 3 and \<open>k\<close> calls of
  \<^verbatim>\<open>open\<close> that failed: each of them left one more unbound slot behind.\<close>

definition table_run :: "nat \<Rightarrow> state \<Rightarrow> bool" where
  "table_run k s =
     (freefhs s = [] \<and> fhs s = new_filehandle\<lparr>fd := 3\<rparr> # replicate k new_filehandle)"

section \<open>Properties\<close>

subsection \<open>Basic facts about the barriers\<close>

lemma trace_emit [simp]: "trace (emit e s) = trace s @ [e]"
  by (simp add: emit_def)

lemma trace_set_locked [simp]: "trace (set_locked p b s) = trace s"
  by (simp add: set_locked_def split: option.splits)

lemma unlock_free:
  "filemap s p = Some d \<Longrightarrow> \<not> locked d \<Longrightarrow>
     (filemap s)(p \<mapsto> d\<lparr>locked := False\<rparr>) = filemap s"
  by (auto simp: fun_upd_idem_iff)

text \<open>A reader in \<^verbatim>\<open>JUST_BARRIER\<close> mode leaves nothing behind but its entry in the log.\<close>

lemma reader_just_barrier:
  "cannyfs_reader path JUST_BARRIER s =
     (if mutex_held path s then Blocks (emit (ReaderCtor path JUST_BARRIER) s)
      else if reader_waits (Some path) s then Blocks (emit (ReaderCtor path JUST_BARRIER) s)
      else Returns (Reader no_lock (if filemap s path = None then None else Some path))
             (emit (ReaderCtor path JUST_BARRIER) s))"
  by (auto simp: cannyfs_reader_def bnd_def filemap_get_def mutex_held_def reader_waits_def
      emit_def unique_lock_dtor_def set_locked_def no_lock_def JUST_BARRIER_def LOCK_WHOLE_def
      unlock_free split: option.splits)

text \<open>A writer on a path other than the empty one never builds a second writer.\<close>

lemma writer_real_path:
  "path \<noteq> '''' \<Longrightarrow> cannyfs_writer path flag eid s =
     (if mutex_held path s
      then Blocks ((emit (WriterCtor path flag eid) s)\<lparr>waitingEvents := insert eid (waitingEvents s)\<rparr>)
      else Returns (Writer (if flag \<noteq> LOCK_WHOLE then no_lock else \<lparr> ul_mutex = Some path, ul_owns = True \<rparr>)
                      (Some path) None eid True)
             ((emit (WriterCtor path flag eid) s)
                \<lparr>waitingEvents := insert eid (waitingEvents s),
                 filemap := (filemap s)(path \<mapsto>
                    (case filemap s path of
                       Some d \<Rightarrow> d\<lparr>locked := True\<rparr>
                     | None \<Rightarrow> \<lparr> locked = True, lastEventId = 0 \<rparr>))\<rparr>))"
  by (subst cannyfs_writer.simps)
     (auto simp: filemap_get_def mutex_held_def emit_def unique_lock_release_def
       split: option.splits)

lemma writer_dtor_owned:
  "cannyfs_writer_dtor (Writer \<lparr> ul_mutex = Some path, ul_owns = True \<rparr> (Some path) None eid True) s =
     Returns () (set_locked path False (emit (NotifyProcessed path) s))"
  by (simp add: lock_unless_owned_def notify_processed_def unique_lock_dtor_def)

subsection \<open>Frame facts\<close>

lemma emit_frame [simp]:
  "closes (emit e s) = closes s"
  "workQueue (emit e s) = workQueue s"
  "options (emit e s) = options s"
  "eventId (emit e s) = eventId s"
  "fhs (emit e s) = fhs s"
  "freefhs (emit e s) = freefhs s"
  "filemap (emit e s) = filemap s"
  "waitingEvents (emit e s) = waitingEvents s"
  by (simp_all add: emit_def)

lemma closer_dtor_frame [simp]:
  "closes (closer_dtor pf x s) = closes s"
  "workQueue (closer_dtor pf x s) = workQueue s"
  "options (closer_dtor pf x s) = options s"
  "eventId (closer_dtor pf x s) = eventId s"
  "fhs (closer_dtor pf x s) = fhs s"
  "freefhs (closer_dtor pf x s) = freefhs s"
  "filemap (closer_dtor pf x s) = filemap s"
  "waitingEvents (closer_dtor pf x s) = waitingEvents s"
  by (simp_all add: closer_dtor_def split: sysres.splits)

lemma closer_dtor_trace:
  "\<exists>es. trace (closer_dtor pf x s) = trace s @ Sys (SysClose x) # es"
  by (simp add: closer_dtor_def split: sysres.splits)

lemma fold_closer_frame [simp]:
  "closes (fold (closer_dtor pf) xs s) = closes s"
  "workQueue (fold (closer_dtor pf) xs s) = workQueue s"
  "options (fold (closer_dtor pf) xs s) = options s"
  "eventId (fold (closer_dtor pf) xs s) = eventId s"
  "fhs (fold (closer_dtor pf) xs s) = fhs s"
  "freefhs (fold (closer_dtor pf) xs s) = freefhs s"
  "filemap (fold (closer_dtor pf) xs s) = filemap s"
  "waitingEvents (fold (closer_dtor pf) xs s) = waitingEvents s"
  by (induction xs arbitrary: s; simp)+

lemma fold_closer_trace:
  "\<exists>es. trace (fold (closer_dtor pf) xs s) = trace s @ es"
proof (induction xs arbitrary: s)
  case Nil
  then show ?case by simp
next
  case (Cons x xs)
  obtain es1 where e1: "trace (closer_dtor pf x s) = trace s @ Sys (SysClose x) # es1"
    using closer_dtor_trace by blast
  obtain es2 where
    "trace (fold (closer_dtor pf) xs (closer_dtor pf x s)) = trace (closer_dtor pf x s) @ es2"
    using Cons.IH by blast
  with e1 show ?case by simp
qed

lemma push_back_frame [simp]:
  "closes (closes_push_back pf x s) = closes s @ [x]"
  "workQueue (closes_push_back pf x s) = workQueue s"
  "options (closes_push_back pf x s) = options s"
  "eventId (closes_push_back pf x s) = eventId s"
  "fhs (closes_push_back pf x s) = fhs s"
  "freefhs (closes_push_back pf x s) = freefhs s"
  "filemap (closes_push_back pf x s) = filemap s"
  "waitingEvents (closes_push_back pf x s) = waitingEvents s"
  by (simp_all add: closes_push_back_def)

text \<open>The descriptor handed to \<^verbatim>\<open>closes.push_back\<close> is closed before the call is over.\<close>

lemma push_back_trace:
  "\<exists>es es'. trace (closes_push_back pf x s) = trace s @ es @ Sys (SysClose x) # es'"
proof -
  let ?s1 = "(if vec_realloc pf (length (closes s)) then fold (closer_dtor pf) (closes s) s else s)
               \<lparr>closes := closes s @ [x]\<rparr>"
  obtain es where e: "trace ?s1 = trace s @ es"
    using fold_closer_trace [of pf "closes s" s] by (cases "vec_realloc pf (length (closes s))") auto
  obtain es' where "trace (closer_dtor pf x ?s1) = trace ?s1 @ Sys (SysClose x) # es'"
    using closer_dtor_trace by blast
  with e show ?thesis by (simp add: closes_push_back_def) blast
qed

lemma getfh_fi_frame:
  "getfh_fi fi s = Returns f s \<Longrightarrow> fhs s' = fhs s \<Longrightarrow> getfh_fi fi s' = Returns f s'"
  by (auto simp: getfh_fi_def on_cfh_def getfh_def getcfh_def split: option.splits if_splits)

subsection \<open>The writer barrier\<close>

text \<open>A writer on the empty path under \<^verbatim>\<open>restrictivedirs\<close> never returns: the writer it
  constructs on the empty path in turn finds the record's mutex taken.\<close>

lemma writer_empty_restrictive:
  "restrictivedirs (options s) \<Longrightarrow> \<exists>s'. cannyfs_writer '''' flag t s = Blocks s'"
  apply (subst cannyfs_writer.simps)
  apply (subst cannyfs_writer.simps)
  apply (auto simp: filemap_get_def emit_def split: option.splits outcome.splits)
  done

text \<open>C3, as the code has it. A writer barrier with ticket \<open>t\<close> on a path other than the
  empty one, constructed in \<^verbatim>\<open>LOCK_WHOLE\<close> mode while the path's mutex is free, inserts \<open>t\<close>
  into \<^verbatim>\<open>waitingEvents\<close> and resolves or creates the record; the record's \<^verbatim>\<open>lastEventId\<close>
  keeps the value it had (0 for a new record) and is not set to \<open>t\<close>; the destructor
  broadcasts on \<^verbatim>\<open>processed\<close> and leaves \<open>t\<close> in \<^verbatim>\<open>waitingEvents\<close>. A writer on the empty path
  (without \<^verbatim>\<open>restrictivedirs\<close>) inserts no ticket, and its destructor erases \<open>t\<close>.\<close>

theorem writer_registration:
  "(path \<noteq> '''' \<and> \<not> mutex_held path s \<longrightarrow>
     (\<exists>w s1 s2.
        cannyfs_writer path LOCK_WHOLE t s = Returns w s1 \<and>
        waitingEvents s1 = insert t (waitingEvents s) \<and>
        map_option lastEventId (filemap s1 path) =
          Some (case filemap s path of Some d \<Rightarrow> lastEventId d | None \<Rightarrow> 0) \<and>
        cannyfs_writer_dtor w s1 = Returns () s2 \<and>
        waitingEvents s2 = insert t (waitingEvents s) \<and>
        trace s2 = trace s @ [WriterCtor path LOCK_WHOLE t, NotifyProcessed path])) \<and>
   (\<not> restrictivedirs (options s) \<and> \<not> mutex_held '''' s \<longrightarrow>
     (\<exists>w s1 s2.
        cannyfs_writer '''' LOCK_WHOLE t s = Returns w s1 \<and>
        waitingEvents s1 = waitingEvents s \<and>
        cannyfs_writer_dtor w s1 = Returns () s2 \<and>
        waitingEvents s2 = waitingEvents s - {t}))"
proof (intro conjI impI)
  assume "path \<noteq> '''' \<and> \<not> mutex_held path s"
  then show "\<exists>w s1 s2.
        cannyfs_writer path LOCK_WHOLE t s = Returns w s1 \<and>
        waitingEvents s1 = insert t (waitingEvents s) \<and>
        map_option lastEventId (filemap s1 path) =
          Some (case filemap s path of Some d \<Rightarrow> lastEventId d | None \<Rightarrow> 0) \<and>
        cannyfs_writer_dtor w s1 = Returns () s2 \<and>
        waitingEvents s2 = insert t (waitingEvents s) \<and>
        trace s2 = trace s @ [WriterCtor path LOCK_WHOLE t, NotifyProcessed path]"
    by (auto simp: writer_real_path writer_dtor_owned emit_def set_locked_def
        split: option.splits simp del: cannyfs_writer_dtor.simps)
next
  assume "\<not> restrictivedirs (options s) \<and> \<not> mutex_held '''' s"
  then show "\<exists>w s1 s2.
        cannyfs_writer '''' LOCK_WHOLE t s = Returns w s1 \<and>
        waitingEvents s1 = waitingEvents s \<and>
        cannyfs_writer_dtor w s1 = Returns () s2 \<and>
        waitingEvents s2 = waitingEvents s - {t}"
    by (subst cannyfs_writer.simps)
       (auto simp: filemap_get_def mutex_held_def emit_def lock_unless_owned_def
         notify_processed_def unique_lock_dtor_def set_locked_def split: option.splits)
qed

theorem writer_registration_witness:
  "''/a'' \<noteq> '''' \<and> \<not> mutex_held ''/a'' (init_state (default_options True)) \<and>
   \<not> restrictivedirs (options (init_state (default_options True))) \<and>
   \<not> mutex_held '''' (init_state (default_options True)) \<and>
   (\<exists>w s1 s2.
      cannyfs_writer ''/a'' LOCK_WHOLE 1 (init_state (default_options True)) = Returns w s1 \<and>
      waitingEvents s1 = {1} \<and>
      map_option lastEventId (filemap s1 ''/a'') = Some 0 \<and>
      cannyfs_writer_dtor w s1 = Returns () s2 \<and>
      waitingEvents s2 = {1} \<and>
      trace s2 = [WriterCtor ''/a'' LOCK_WHOLE 1, NotifyProcessed ''/a'']) \<and>
   (\<exists>w s1 s2.
      cannyfs_writer '''' LOCK_WHOLE 1 (init_state (default_options True)) = Returns w s1 \<and>
      waitingEvents s1 = {} \<and>
      cannyfs_writer_dtor w s1 = Returns () s2 \<and>
      waitingEvents s2 = {})"
  using writer_registration [of "''/a''" "init_state (default_options True)" 1]
  by (simp add: init_state_def default_options_def mutex_held_def)

text \<open>C4, as the code has it. Under \<^verbatim>\<open>restrictivedirs\<close>, a writer barrier on a path other
  than the empty one constructs no second writer: its \<^verbatim>\<open>generalwriter\<close> stays null and
  the only barrier constructed is the one on the path itself. A writer on the empty
  path never returns. A \<^verbatim>\<open>cannyfs_dirreader\<close> is a reader on the empty path, and
  \<^verbatim>\<open>cannyfs_opendir\<close> constructs that reader in \<^verbatim>\<open>JUST_BARRIER\<close> mode before anything else.\<close>

theorem writer_no_general:
  "(restrictivedirs (options s) \<and> path \<noteq> '''' \<and> \<not> mutex_held path s \<longrightarrow>
      (\<exists>w s1. cannyfs_writer path flag t s = Returns w s1 \<and> w_generalwriter w = None \<and>
               trace s1 = trace s @ [WriterCtor path flag t])) \<and>
   (restrictivedirs (options s) \<longrightarrow> (\<exists>s'. cannyfs_writer '''' flag t s = Blocks s')) \<and>
   (restrictivedirs (options s) \<longrightarrow> cannyfs_dirreader path flag s = cannyfs_reader '''' flag s) \<and>
   (restrictivedirs (options s) \<and> \<not> mutex_held '''' s \<and> \<not> reader_waits (Some '''') s \<longrightarrow>
      cannyfs_opendir pf path fi s =
        Returns (case sys pf (trace s @ [ReaderCtor '''' JUST_BARRIER]) (SysOpendir path) of
                   Ok n \<Rightarrow> (0, fi\<lparr>fh := n\<rparr>) | Err e \<Rightarrow> (- int e, fi))
          (emit (Sys (SysOpendir path)) (emit (ReaderCtor '''' JUST_BARRIER) s)))"
  using writer_empty_restrictive [of s flag t]
  by (auto simp: writer_real_path emit_def cannyfs_dirreader_def cannyfs_opendir_def
      reader_just_barrier bnd_def syscall_do_def cannyfs_reader_dtor_def unique_lock_dtor_def
      no_lock_def split: sysres.splits)

theorem writer_no_general_witness:
  "restrictivedirs (options (init_state ((default_options True)\<lparr>restrictivedirs := True\<rparr>))) \<and>
   ''/a'' \<noteq> '''' \<and>
   \<not> mutex_held ''/a'' (init_state ((default_options True)\<lparr>restrictivedirs := True\<rparr>)) \<and>
   (\<exists>w s1. cannyfs_writer ''/a'' LOCK_WHOLE 1
              (init_state ((default_options True)\<lparr>restrictivedirs := True\<rparr>)) = Returns w s1 \<and>
            w_generalwriter w = None \<and> trace s1 = [WriterCtor ''/a'' LOCK_WHOLE 1]) \<and>
   (\<exists>s'. cannyfs_writer '''' LOCK_WHOLE 1
            (init_state ((default_options True)\<lparr>restrictivedirs := True\<rparr>)) = Blocks s') \<and>
   cannyfs_dirreader ''/dir'' JUST_BARRIER
       (init_state ((default_options True)\<lparr>restrictivedirs := True\<rparr>)) =
     cannyfs_reader '''' JUST_BARRIER
       (init_state ((default_options True)\<lparr>restrictivedirs := True\<rparr>)) \<and>
   cannyfs_opendir (test_platform (ok_store 3)) ''/dir'' fi0
       (init_state ((default_options True)\<lparr>restrictivedirs := True\<rparr>)) =
     Returns (0, fi0)
       (emit (Sys (SysOpendir ''/dir'')) (emit (ReaderCtor '''' JUST_BARRIER)
          (init_state ((default_options True)\<lparr>restrictivedirs := True\<rparr>))))"
  using writer_no_general [of "init_state ((default_options True)\<lparr>restrictivedirs := True\<rparr>)"
      "''/a''" LOCK_WHOLE 1 "test_platform (ok_store 3)" fi0]
    writer_no_general [of "init_state ((default_options True)\<lparr>restrictivedirs := True\<rparr>)"
      "''/dir''" JUST_BARRIER 1 "test_platform (ok_store 3)" fi0]
  by (simp add: init_state_def default_options_def mutex_held_def reader_waits_def
      test_platform_def ok_store_def fi0_def)

subsection \<open>The late-close reservoir\<close>

text \<open>C7, as the code has it. Under \<^verbatim>\<open>closeverylate\<close>, on a handle bound to descriptor \<open>f\<close>:
  \<^verbatim>\<open>cannyfs_flush\<close> duplicates \<open>f\<close>, appends the duplicate to \<^verbatim>\<open>closes\<close>, queues nothing and
  returns 0, but the duplicate is closed before the callback returns (the temporary
  \<^verbatim>\<open>cannyfs_closer\<close> is destroyed). \<^verbatim>\<open>cannyfs_release\<close> appends \<open>f\<close> to \<^verbatim>\<open>closes\<close>, closes \<open>f\<close>
  in the same way, and then still goes on to \<^verbatim>\<open>cannyfs_add_write\<close>: under \<^verbatim>\<open>eagerclose\<close> it
  queues a closure, and that closure closes \<open>f\<close> once more when it runs.\<close>

theorem late_close_policy:
  "(closeverylate (options s) \<and> getfh_fi fi s = Returns f s \<longrightarrow>
     (\<exists>s' es es'.
        cannyfs_flush pf cpath fi s = Returns 0 s' \<and>
        closes s' = closes s @ [ret (sys pf (trace s) (SysDup f))] \<and>
        workQueue s' = workQueue s \<and>
        trace s' = trace s @ Sys (SysDup f) # es @
                     Sys (SysClose (ret (sys pf (trace s) (SysDup f)))) # es') \<and>
     (eagerclose (options s) \<longrightarrow>
        (\<exists>s' es es'.
           cannyfs_release pf cpath fi s = Returns 0 s' \<and>
           closes s' = closes s @ [f] \<and>
           workQueue s' = workQueue s @
             [(llong_wrap (eventId s + 1), FiClosure cpath fi ReleaseBody)] \<and>
           trace s' = trace s @ es @ Sys (SysClose f) # es'))) \<and>
   (cpath \<noteq> '''' \<and> \<not> mutex_held cpath s2 \<and> getfh_fi fi s2 = Returns f s2 \<longrightarrow>
      (\<exists>s3. run_closure pf (FiClosure cpath fi ReleaseBody) t s2 =
               Returns (ret (sys pf (trace s2 @ [WriterCtor cpath LOCK_WHOLE (int_narrow t)])
                               (SysClose f))) s3 \<and>
            trace s3 = trace s2 @
              [WriterCtor cpath LOCK_WHOLE (int_narrow t), Sys (SysClose f), NotifyProcessed cpath]))"
proof (intro impI conjI)
  assume a: "closeverylate (options s) \<and> getfh_fi fi s = Returns f s"
  obtain es es' where
    "trace (closes_push_back pf (ret (sys pf (trace s) (SysDup f))) (emit (Sys (SysDup f)) s)) =
       trace (emit (Sys (SysDup f)) s) @ es @ Sys (SysClose (ret (sys pf (trace s) (SysDup f)))) # es'"
    using push_back_trace by blast
  with a show "\<exists>s' es es'.
        cannyfs_flush pf cpath fi s = Returns 0 s' \<and>
        closes s' = closes s @ [ret (sys pf (trace s) (SysDup f))] \<and>
        workQueue s' = workQueue s \<and>
        trace s' = trace s @ Sys (SysDup f) # es @
                     Sys (SysClose (ret (sys pf (trace s) (SysDup f)))) # es'"
    by (auto simp: cannyfs_flush_def bnd_def syscall_do_def)
next
  assume a: "closeverylate (options s) \<and> getfh_fi fi s = Returns f s"
    and e: "eagerclose (options s)"
  obtain es es' where
    "trace (closes_push_back pf f s) = trace s @ es @ Sys (SysClose f) # es'"
    using push_back_trace by blast
  with a e show "\<exists>s' es es'.
           cannyfs_release pf cpath fi s = Returns 0 s' \<and>
           closes s' = closes s @ [f] \<and>
           workQueue s' = workQueue s @
             [(llong_wrap (eventId s + 1), FiClosure cpath fi ReleaseBody)] \<and>
           trace s' = trace s @ es @ Sys (SysClose f) # es'"
    by (auto simp: cannyfs_release_def bnd_def cannyfs_add_write_def)
next
  assume a: "cpath \<noteq> '''' \<and> \<not> mutex_held cpath s2 \<and> getfh_fi fi s2 = Returns f s2"
  then have frame: "\<And>s'. fhs s' = fhs s2 \<Longrightarrow> getfh_fi fi s' = Returns f s'"
    using getfh_fi_frame by blast
  show "\<exists>s3. run_closure pf (FiClosure cpath fi ReleaseBody) t s2 =
               Returns (ret (sys pf (trace s2 @ [WriterCtor cpath LOCK_WHOLE (int_narrow t)])
                               (SysClose f))) s3 \<and>
            trace s3 = trace s2 @
              [WriterCtor cpath LOCK_WHOLE (int_narrow t), Sys (SysClose f), NotifyProcessed cpath]"
    using a
    by (simp add: writer_real_path bnd_def frame syscall_do_def writer_dtor_owned emit_def
        del: cannyfs_writer_dtor.simps)
qed

theorem late_close_policy_witness:
  "closeverylate (options (bound_state (default_options True) 5)) \<and>
   eagerclose (options (bound_state (default_options True) 5)) \<and>
   getfh_fi fi0 (bound_state (default_options True) 5) =
     Returns 5 (bound_state (default_options True) 5) \<and>
   (\<exists>s' es es'.
      cannyfs_flush (test_platform (ok_store 3)) ''/a'' fi0 (bound_state (default_options True) 5) =
        Returns 0 s' \<and>
      closes s' = [3] \<and> workQueue s' = [] \<and>
      trace s' = Sys (SysDup 5) # es @ Sys (SysClose 3) # es') \<and>
   (\<exists>s' es es'.
      cannyfs_release (test_platform (ok_store 3)) ''/a'' fi0 (bound_state (default_options True) 5) =
        Returns 0 s' \<and>
      closes s' = [5] \<and> workQueue s' = [(1, FiClosure ''/a'' fi0 ReleaseBody)] \<and>
      trace s' = es @ Sys (SysClose 5) # es') \<and>
   (\<exists>s3. run_closure (test_platform (ok_store 3)) (FiClosure ''/a'' fi0 ReleaseBody) 1
            (bound_state (default_options True) 5) = Returns 0 s3 \<and>
          trace s3 = [WriterCtor ''/a'' LOCK_WHOLE 1, Sys (SysClose 5), NotifyProcessed ''/a''])"
  using late_close_policy [of "bound_state (default_options True) 5" fi0 5
      "test_platform (ok_store 3)" "''/a''" "bound_state (default_options True) 5" 1]
  by (simp add: init_state_def default_options_def bound_state_def mutex_held_def
      test_platform_def ok_store_def fi0_def getfh_fi_def on_cfh_def getfh_def getcfh_def new_filehandle_def
      llong_wrap_def int_narrow_def ret_def)

subsection \<open>The reader barrier\<close>

lemma reader_frame:
  "cannyfs_reader path flag s = Returns b s' \<Longrightarrow>
     waitingEvents s' = waitingEvents s \<and> fhs s' = fhs s \<and> freefhs s' = freefhs s \<and>
     workQueue s' = workQueue s \<and> options s' = options s \<and> closes s' = closes s \<and>
     eventId s' = eventId s \<and> trace s' = trace s @ [ReaderCtor path flag]"
  by (auto simp: cannyfs_reader_def bnd_def filemap_get_def unique_lock_dtor_def set_locked_def
      emit_def no_lock_def split: option.splits if_splits)

text \<open>What the constructor tests is the snapshot alone: it returns only when the snapshot
  of \<^verbatim>\<open>lastEventId\<close> is not in \<^verbatim>\<open>waitingEvents\<close>, with the record's mutex free it stays
  suspended exactly as long as the snapshot is there, and with no record and
  \<^verbatim>\<open>JUST_BARRIER\<close> mode it returns at once. Tickets other than the snapshot are not looked
  at.\<close>

lemma reader_barrier_drain:
  "(cannyfs_reader p flag s = Returns b s' \<and> filemap s p = Some d \<longrightarrow>
      lastEventId d \<notin> waitingEvents s' \<and> waitingEvents s' = waitingEvents s) \<and>
   (filemap s p = Some d \<and> \<not> locked d \<and> lastEventId d \<in> waitingEvents s \<longrightarrow>
      cannyfs_reader p flag s = Blocks (emit (ReaderCtor p flag) s)) \<and>
   (filemap s p = Some d \<and> \<not> locked d \<and> lastEventId d \<notin> waitingEvents s \<longrightarrow>
      (\<exists>b' s''. cannyfs_reader p flag s = Returns b' s'')) \<and>
   (filemap s p = None \<and> flag \<noteq> LOCK_WHOLE \<longrightarrow>
      cannyfs_reader p flag s = Returns (Reader no_lock None) (emit (ReaderCtor p flag) s))"
  by (auto simp: cannyfs_reader_def bnd_def filemap_get_def reader_waits_def
      unique_lock_dtor_def set_locked_def emit_def no_lock_def unlock_free
      split: option.splits if_splits)

text \<open>Tickets along a run. No statement assigns \<^verbatim>\<open>lastEventId\<close>, so every snapshot is 0;
  a ticket reaches \<^verbatim>\<open>cannyfs_writer\<close> through a parameter of type \<^verbatim>\<open>int\<close> and, for a path
  other than the empty one, is never erased.\<close>

lemma llong_small: "0 \<le> x \<Longrightarrow> x < 2 ^ 63 \<Longrightarrow> llong_wrap x = x"
  by (simp add: llong_wrap_def int_word_sint)

lemma int_narrow_top: "int_narrow 2147483648 = - 2147483648"
  by (simp add: int_narrow_def)

lemma int_narrow_nonzero: "1 \<le> j \<Longrightarrow> j \<le> 2147483648 \<Longrightarrow> int_narrow j \<noteq> 0"
proof -
  assume a: "1 \<le> j" "j \<le> 2147483648"
  show ?thesis
  proof (cases "j = 2147483648")
    case True
    then show ?thesis by (simp add: int_narrow_top)
  next
    case False
    with a have "0 \<le> j + 2147483648" "j + 2147483648 < 4294967296" by simp_all
    then have "(j + 2147483648) mod 4294967296 = j + 2147483648" by simp
    with a show ?thesis by (simp add: int_narrow_def int_word_sint)
  qed
qed

text \<open>One deferred \<^verbatim>\<open>chmod\<close> and the worker's run of its task.\<close>

lemma ticket_step:
  assumes w: "ticket_run k s" and b: "int k + 1 < 2 ^ 63"
  shows "\<exists>s1 s'. do_call pf (Chmod ''/a'' m) s = Some s1 \<and> do_call pf (Work 0) s1 = Some s' \<and>
           ticket_run (Suc k) s'"
proof -
  from w have e: "eventId s = int k" and o: "eagerchmod (options s)" and q: "workQueue s = []"
    and we: "waitingEvents s = int_narrow ` {1..int k}"
    and f: "case filemap s ''/a'' of None \<Rightarrow> k = 0 | Some d \<Rightarrow> \<not> locked d \<and> lastEventId d = 0"
    by (simp_all add: ticket_run_def)
  have t: "llong_wrap (eventId s + 1) = int k + 1"
    using e b by (simp add: llong_small)
  have img: "insert (int_narrow (int k + 1)) (int_narrow ` {1..int k}) = int_narrow ` {1..int (Suc k)}"
  proof -
    have "{1..int (Suc k)} = insert (int k + 1) {1..int k}" by auto
    then show ?thesis by simp
  qed
  show ?thesis
    using o q t f we e img
    by (auto simp: cannyfs_chmod_def cannyfs_add_write_def returned_def run_task_def
        writer_real_path writer_dtor_owned bnd_def syscall_do_def ticket_run_def set_locked_def
        emit_def mutex_held_def
        simp del: cannyfs_writer_dtor.simps split: option.splits)
qed

lemma ticket_steps:
  "ticket_run k s \<Longrightarrow> int (k + n) < 2 ^ 63 \<Longrightarrow>
     \<exists>s'. run_calls pf (concat (replicate n [Chmod ''/a'' m, Work 0])) s = Some s' \<and>
          ticket_run (k + n) s'"
proof (induction n arbitrary: k s)
  case 0
  then show ?case by simp
next
  case (Suc n)
  from Suc.prems have "int k + 1 < 2 ^ 63" by simp
  from ticket_step [OF Suc.prems(1) this, of pf m] obtain s1 s2 where
    s1: "do_call pf (Chmod ''/a'' m) s = Some s1" and s2: "do_call pf (Work 0) s1 = Some s2"
    and w1: "ticket_run (Suc k) s2" by blast
  from Suc.prems have "int (Suc k + n) < 2 ^ 63" by simp
  from Suc.IH [OF w1 this] obtain s' where
    "run_calls pf (concat (replicate n [Chmod ''/a'' m, Work 0])) s2 = Some s'"
    "ticket_run (Suc k + n) s'" by blast
  with s1 s2 show ?case by simp
qed

lemma ticket_start: "ticket_run 0 (init_state (default_options ec))"
  by (simp add: ticket_run_def init_state_def default_options_def)

text \<open>C2, as the code has it. With the default options, after 2147483648 calls of
  \<^verbatim>\<open>chmod\<close> on \<open>''/a''\<close>, each followed by the worker's run of its task, the record of the
  path holds \<^verbatim>\<open>lastEventId\<close> 0 and \<^verbatim>\<open>waitingEvents\<close> holds the ticket -2147483648. A reader
  barrier constructed on the path then returns at once, and the ticket, which is below
  the snapshot 0, is still in \<^verbatim>\<open>waitingEvents\<close> when it has returned.\<close>

theorem wrapped_ticket_reachable:
  "\<exists>s. run_calls pf (concat (replicate 2147483648 [Chmod ''/a'' 384, Work 0]))
          (init_state (default_options ec)) = Some s \<and>
       map_option lastEventId (filemap s ''/a'') = Some 0 \<and>
       cannyfs_reader ''/a'' JUST_BARRIER s =
         Returns (Reader no_lock (Some ''/a'')) (emit (ReaderCtor ''/a'' JUST_BARRIER) s) \<and>
       - 2147483648 \<in> waitingEvents (emit (ReaderCtor ''/a'' JUST_BARRIER) s) \<and>
       (- 2147483648 :: int) \<le> 0"
proof -
  from ticket_steps [OF ticket_start, of 2147483648 pf 384 ec] obtain s where
    r: "run_calls pf (concat (replicate 2147483648 [Chmod ''/a'' 384, Work 0]))
          (init_state (default_options ec)) = Some s"
    and w: "ticket_run 2147483648 s" by auto
  from w obtain d where d: "filemap s ''/a'' = Some d" "\<not> locked d" "lastEventId d = 0"
    by (auto simp: ticket_run_def split: option.splits)
  from w have we: "waitingEvents s = int_narrow ` {1..2147483648}"
    by (simp add: ticket_run_def)
  have in1: "- 2147483648 \<in> waitingEvents s"
  proof -
    have "int_narrow 2147483648 \<in> int_narrow ` {1..2147483648}" by (rule imageI) simp
    then show ?thesis by (simp add: we int_narrow_top)
  qed
  have out0: "0 \<notin> waitingEvents s"
    using int_narrow_nonzero by (auto simp: we)
  from d out0 have "cannyfs_reader ''/a'' JUST_BARRIER s =
         Returns (Reader no_lock (Some ''/a'')) (emit (ReaderCtor ''/a'' JUST_BARRIER) s)"
    by (simp add: reader_just_barrier mutex_held_def reader_waits_def)
  with r d in1 show ?thesis by auto
qed

subsection \<open>Ordering of operations on one path\<close>

text \<open>C1, as the code has it. With the default options and a store that remembers modes:
  \<^verbatim>\<open>chmod("/a", 0600)\<close> returns 0 with its closure queued; a \<^verbatim>\<open>getattr("/a")\<close> submitted after
  it finds no record for the path, passes its barrier and reads the old mode 0644
  (420); only when a worker runs the task is the \<^verbatim>\<open>chmod\<close> made, after the \<^verbatim>\<open>lstat\<close>. And
  of two deferred \<^verbatim>\<open>chmod\<close> calls on one path, the worker may run the later one first, so
  that the mode of the earlier one, 0600 (384), is the one that stays.\<close>

theorem deferred_chmod_unseen:
  "(\<exists>s1 s2 s3 s4.
      cannyfs_chmod (test_platform mode_store) ''/a'' 384 (init_state (default_options True)) =
        Returns 0 s1 \<and>
      cannyfs_getattr (test_platform mode_store) ''/a'' s1 = Returns (0, Some 420) s2 \<and>
      workQueue s2 = [(1, PathClosure ''/a'' (ChmodBody 384))] \<and>
      trace s2 = [ReaderCtor ''/a'' JUST_BARRIER, Sys (SysLstat ''/a'')] \<and>
      run_task (test_platform mode_store) 0 s2 = Returns 0 s3 \<and>
      trace s3 = [ReaderCtor ''/a'' JUST_BARRIER, Sys (SysLstat ''/a''),
                  WriterCtor ''/a'' LOCK_WHOLE 1, Sys (SysChmod ''/a'' 384),
                  NotifyProcessed ''/a''] \<and>
      cannyfs_getattr (test_platform mode_store) ''/a'' s3 = Returns (0, Some 384) s4) \<and>
   (\<exists>s1 s2 s3 s4 s5.
      cannyfs_chmod (test_platform mode_store) ''/a'' 384 (init_state (default_options True)) =
        Returns 0 s1 \<and>
      cannyfs_chmod (test_platform mode_store) ''/a'' 448 s1 = Returns 0 s2 \<and>
      workQueue s2 = [(1, PathClosure ''/a'' (ChmodBody 384)), (2, PathClosure ''/a'' (ChmodBody 448))] \<and>
      run_task (test_platform mode_store) 1 s2 = Returns 0 s3 \<and>
      run_task (test_platform mode_store) 0 s3 = Returns 0 s4 \<and>
      trace s4 = [WriterCtor ''/a'' LOCK_WHOLE 2, Sys (SysChmod ''/a'' 448), NotifyProcessed ''/a'',
                  WriterCtor ''/a'' LOCK_WHOLE 1, Sys (SysChmod ''/a'' 384), NotifyProcessed ''/a''] \<and>
      cannyfs_getattr (test_platform mode_store) ''/a'' s4 = Returns (0, Some 384) s5)"
  by (simp add: cannyfs_chmod_def cannyfs_add_write_def cannyfs_getattr_def run_task_def
      reader_just_barrier writer_real_path writer_dtor_owned bnd_def syscall_do_def
      init_state_def default_options_def test_platform_def mode_store_def mutex_held_def
      reader_waits_def llong_wrap_def int_narrow_def errno_ret_def emit_def set_locked_def
      cannyfs_reader_dtor_def unique_lock_dtor_def no_lock_def
      del: cannyfs_writer_dtor.simps)

subsection \<open>Create and open\<close>

lemma getnewfh_frame [simp]:
  "options (snd (getnewfh s)) = options s"
  "eventId (snd (getnewfh s)) = eventId s"
  "workQueue (snd (getnewfh s)) = workQueue s"
  "trace (snd (getnewfh s)) = trace s"
  "filemap (snd (getnewfh s)) = filemap s"
  "waitingEvents (snd (getnewfh s)) = waitingEvents s"
  "closes (snd (getnewfh s)) = closes s"
  by (simp_all add: getnewfh_def split: list.splits)

lemma getcfh_emit [simp]: "getcfh x (emit e s) = getcfh x s"
  by (simp add: getcfh_def)

lemma on_cfh_setfh:
  "getcfh x s = Some i \<Longrightarrow>
     on_cfh x (\<lambda>i. setfh i v) s =
       Returns () (emit (NotifyOpened i) (s\<lparr>fhs := (fhs s)[i := (fhs s ! i)\<lparr>fd := v\<rparr>]\<rparr>))"
  by (auto simp: on_cfh_def setfh_def getcfh_def split: if_splits)

lemma getfh_after_setfh:
  "getcfh x s = Some i \<Longrightarrow> fhs s' = (fhs s)[i := (fhs s ! i)\<lparr>fd := int n\<rparr>] \<Longrightarrow>
     on_cfh x getfh s' = Returns (int n) s'"
  by (auto simp: on_cfh_def getcfh_def getfh_def split: if_splits)

lemma getcfh_bound: "getcfh x s = Some i \<Longrightarrow> i < length (fhs s)"
  by (auto simp: getcfh_def split: if_splits)

text \<open>The lambda of \<^verbatim>\<open>cannyfs_create\<close> inside its writer barrier.\<close>

lemma create_closure_ok:
  assumes "path \<noteq> ''''" and "\<not> mutex_held path s2" and "getcfh (fh fi2) s2 = Some i"
    and "sys pf (trace s2 @ [WriterCtor path LOCK_WHOLE (int_narrow t)])
           (SysOpen path (flags fi2) (Some mode)) = Ok n"
  shows "\<exists>s3. run_closure pf (FiClosure path fi2 (CreateBody mode)) t s2 =
               Returns (fallthrough pf) s3 \<and>
            fhs s3 = (fhs s2)[i := (fhs s2 ! i)\<lparr>fd := int n\<rparr>] \<and>
            workQueue s3 = workQueue s2 \<and>
            trace s3 = trace s2 @
              [WriterCtor path LOCK_WHOLE (int_narrow t),
               Sys (SysOpen path (flags fi2) (Some mode)),
               NotifyOpened i, NotifyProcessed path]"
proof -
  have g: "\<And>s'. fhs s' = fhs s2 \<Longrightarrow> getcfh (fh fi2) s' = Some i"
    using assms(3) by (simp add: getcfh_def)
  show ?thesis
    using assms(1,2,4)
    by (simp add: writer_real_path bnd_def syscall_do_def writer_dtor_owned
        on_cfh_setfh g set_locked_def emit_def
        del: cannyfs_writer_dtor.simps split: option.splits)
qed

lemma create_closure_err:
  assumes "path \<noteq> ''''" and "\<not> mutex_held path s2"
    and "sys pf (trace s2 @ [WriterCtor path LOCK_WHOLE (int_narrow t)])
           (SysOpen path (flags fi2) (Some mode)) = Err e"
  shows "\<exists>s3. run_closure pf (FiClosure path fi2 (CreateBody mode)) t s2 =
               Returns (- int e) s3 \<and>
            fhs s3 = fhs s2 \<and>
            workQueue s3 = workQueue s2 \<and>
            trace s3 = trace s2 @
              [WriterCtor path LOCK_WHOLE (int_narrow t),
               Sys (SysOpen path (flags fi2) (Some mode)), NotifyProcessed path]"
  using assms
  by (simp add: writer_real_path bnd_def syscall_do_def writer_dtor_owned emit_def
      set_locked_def del: cannyfs_writer_dtor.simps split: option.splits)

text \<open>C5, as stated, fails for \<^verbatim>\<open>open\<close>: on the initial state, with a store whose \<^verbatim>\<open>open\<close>
  yields descriptor 3, \<^verbatim>\<open>cannyfs_open\<close> returns with the \<^verbatim>\<open>open\<close> system call already made
  by the callback itself, the handle already bound, and nothing in \<^verbatim>\<open>workQueue\<close>.\<close>

theorem open_is_synchronous:
  "cannyfs_open (test_platform (ok_store 3)) ''/a'' fi0 (init_state (default_options True)) =
     Returns (0, fi0)
       ((init_state (default_options True))
          \<lparr>fhs := [new_filehandle\<lparr>fd := 3\<rparr>],
           trace := [Sys (SysOpen ''/a'' 0 None), NotifyOpened 0]\<rparr>) \<and>
   workQueue ((init_state (default_options True))
          \<lparr>fhs := [new_filehandle\<lparr>fd := 3\<rparr>],
           trace := [Sys (SysOpen ''/a'' 0 None), NotifyOpened 0]\<rparr>) = []"
  by (simp add: cannyfs_open_def getnewfh_def bnd_def syscall_do_def setfh_def getcfh_def
      on_cfh_def u64_def int_narrow_def
      init_state_def test_platform_def ok_store_def fi0_def emit_def new_filehandle_def)

text \<open>C5, amended. Both callbacks take a handle from \<^verbatim>\<open>getnewfh\<close> and store its index in
  \<^verbatim>\<open>fi->fh\<close> (a \<^verbatim>\<open>uint64_t\<close>) before anything else. \<^verbatim>\<open>cannyfs_create\<close> hands the real \<^verbatim>\<open>open\<close>
  to \<^verbatim>\<open>cannyfs_add_write\<close>: under \<^verbatim>\<open>eagercreate\<close> it returns 0 with one closure queued and
  no system call made; without \<^verbatim>\<open>eagercreate\<close> it takes the ticket, runs that same closure
  itself and returns what the closure yields. The closure, run on a path other than the
  empty one with the path's mutex free, makes the \<^verbatim>\<open>open\<close> inside a writer barrier; when the \<^verbatim>\<open>open\<close> succeeds with descriptor
  \<open>n\<close> it stores \<open>n\<close> in the slot that \<^verbatim>\<open>getcfh(fi->fh)\<close> refers to, leaves every other slot
  as it was, and broadcasts \<^verbatim>\<open>opened\<close>; when the \<^verbatim>\<open>open\<close> fails it yields the negated
  \<^verbatim>\<open>errno\<close> and leaves the table as it was. \<^verbatim>\<open>cannyfs_open\<close> queues nothing: it makes the
  \<^verbatim>\<open>open\<close> system call itself before returning, then stores the descriptor in the slot
  that \<^verbatim>\<open>getcfh(fi->fh)\<close> refers to, broadcasts \<^verbatim>\<open>opened\<close> and returns 0, or returns the
  negated \<^verbatim>\<open>errno\<close> with the handle left allocated and unbound.\<close>

theorem create_open_flow:
  "(eagercreate (options s) \<longrightarrow>
      cannyfs_create pf path mode fi s =
        Returns (0, fi\<lparr>fh := u64 (fst (getnewfh s))\<rparr>)
          ((snd (getnewfh s))
             \<lparr>eventId := llong_wrap (eventId s + 1),
              workQueue := workQueue s @
                [(llong_wrap (eventId s + 1),
                  FiClosure path (fi\<lparr>fh := u64 (fst (getnewfh s))\<rparr>) (CreateBody mode))]\<rparr>)) \<and>
   (\<not> eagercreate (options s) \<longrightarrow>
      cannyfs_create pf path mode fi s =
        bnd (run_closure pf (FiClosure path (fi\<lparr>fh := u64 (fst (getnewfh s))\<rparr>) (CreateBody mode))
               (llong_wrap (eventId s + 1)))
          (\<lambda>res. Returns (res, fi\<lparr>fh := u64 (fst (getnewfh s))\<rparr>))
          ((snd (getnewfh s))\<lparr>eventId := llong_wrap (eventId s + 1)\<rparr>)) \<and>
   (path \<noteq> '''' \<and> \<not> mutex_held path s2 \<and> getcfh (fh fi2) s2 = Some i \<and>
    sys pf (trace s2 @ [WriterCtor path LOCK_WHOLE (int_narrow t)])
      (SysOpen path (flags fi2) (Some mode)) = Ok n \<longrightarrow>
      (\<exists>s3. run_closure pf (FiClosure path fi2 (CreateBody mode)) t s2 =
               Returns (fallthrough pf) s3 \<and>
            fhs s3 = (fhs s2)[i := (fhs s2 ! i)\<lparr>fd := int n\<rparr>] \<and>
            getfh_fi fi2 s3 = Returns (int n) s3 \<and>
            workQueue s3 = workQueue s2 \<and>
            trace s3 = trace s2 @
              [WriterCtor path LOCK_WHOLE (int_narrow t),
               Sys (SysOpen path (flags fi2) (Some mode)),
               NotifyOpened i, NotifyProcessed path])) \<and>
   (path \<noteq> '''' \<and> \<not> mutex_held path s2 \<and>
    sys pf (trace s2 @ [WriterCtor path LOCK_WHOLE (int_narrow t)])
      (SysOpen path (flags fi2) (Some mode)) = Err e \<longrightarrow>
      (\<exists>s3. run_closure pf (FiClosure path fi2 (CreateBody mode)) t s2 =
               Returns (- int e) s3 \<and>
            fhs s3 = fhs s2 \<and>
            workQueue s3 = workQueue s2 \<and>
            trace s3 = trace s2 @
              [WriterCtor path LOCK_WHOLE (int_narrow t),
               Sys (SysOpen path (flags fi2) (Some mode)), NotifyProcessed path])) \<and>
   (getcfh (u64 (fst (getnewfh s))) (snd (getnewfh s)) = Some j \<and>
    sys pf (trace s) (SysOpen path (flags fi) None) = Ok n \<longrightarrow>
      (\<exists>s'. cannyfs_open pf path fi s = Returns (0, fi\<lparr>fh := u64 (fst (getnewfh s))\<rparr>) s' \<and>
            fhs s' = (fhs (snd (getnewfh s)))[j := (fhs (snd (getnewfh s)) ! j)\<lparr>fd := int n\<rparr>] \<and>
            getfh_fi (fi\<lparr>fh := u64 (fst (getnewfh s))\<rparr>) s' = Returns (int n) s' \<and>
            workQueue s' = workQueue s \<and>
            trace s' = trace s @ [Sys (SysOpen path (flags fi) None), NotifyOpened j])) \<and>
   (sys pf (trace s) (SysOpen path (flags fi) None) = Err e \<longrightarrow>
      (\<exists>s'. cannyfs_open pf path fi s = Returns (- int e, fi\<lparr>fh := u64 (fst (getnewfh s))\<rparr>) s' \<and>
            fhs s' = fhs (snd (getnewfh s)) \<and>
            workQueue s' = workQueue s \<and>
            trace s' = trace s @ [Sys (SysOpen path (flags fi) None)]))"
proof -
  have c1: "cannyfs_create pf path mode fi s =
        Returns (0, fi\<lparr>fh := u64 (fst (getnewfh s))\<rparr>)
          ((snd (getnewfh s))
             \<lparr>eventId := llong_wrap (eventId s + 1),
              workQueue := workQueue s @
                [(llong_wrap (eventId s + 1),
                  FiClosure path (fi\<lparr>fh := u64 (fst (getnewfh s))\<rparr>) (CreateBody mode))]\<rparr>)"
    if "eagercreate (options s)"
    using that by (simp add: cannyfs_create_def cannyfs_add_write_def bnd_def)
  have c2: "cannyfs_create pf path mode fi s =
        bnd (run_closure pf (FiClosure path (fi\<lparr>fh := u64 (fst (getnewfh s))\<rparr>) (CreateBody mode))
               (llong_wrap (eventId s + 1)))
          (\<lambda>res. Returns (res, fi\<lparr>fh := u64 (fst (getnewfh s))\<rparr>))
          ((snd (getnewfh s))\<lparr>eventId := llong_wrap (eventId s + 1)\<rparr>)"
    if "\<not> eagercreate (options s)"
    using that by (simp add: cannyfs_create_def cannyfs_add_write_def bnd_def)
  have c3: "\<exists>s3. run_closure pf (FiClosure path fi2 (CreateBody mode)) t s2 =
               Returns (fallthrough pf) s3 \<and>
            fhs s3 = (fhs s2)[i := (fhs s2 ! i)\<lparr>fd := int n\<rparr>] \<and>
            getfh_fi fi2 s3 = Returns (int n) s3 \<and>
            workQueue s3 = workQueue s2 \<and>
            trace s3 = trace s2 @
              [WriterCtor path LOCK_WHOLE (int_narrow t),
               Sys (SysOpen path (flags fi2) (Some mode)),
               NotifyOpened i, NotifyProcessed path]"
    if a: "path \<noteq> '''' \<and> \<not> mutex_held path s2 \<and> getcfh (fh fi2) s2 = Some i \<and>
      sys pf (trace s2 @ [WriterCtor path LOCK_WHOLE (int_narrow t)])
        (SysOpen path (flags fi2) (Some mode)) = Ok n"
  proof -
    from a create_closure_ok [of path s2 fi2 i pf t mode n] obtain s3 where
      r: "run_closure pf (FiClosure path fi2 (CreateBody mode)) t s2 = Returns (fallthrough pf) s3"
      and f: "fhs s3 = (fhs s2)[i := (fhs s2 ! i)\<lparr>fd := int n\<rparr>]"
      and q: "workQueue s3 = workQueue s2"
      and tr: "trace s3 = trace s2 @
              [WriterCtor path LOCK_WHOLE (int_narrow t),
               Sys (SysOpen path (flags fi2) (Some mode)),
               NotifyOpened i, NotifyProcessed path]"
      by blast
    from a f have "getfh_fi fi2 s3 = Returns (int n) s3"
      using getfh_after_setfh [of "fh fi2" s2 i s3 n] by (simp add: getfh_fi_def)
    with r f q tr show ?thesis by blast
  qed
  have c4: "\<exists>s3. run_closure pf (FiClosure path fi2 (CreateBody mode)) t s2 =
               Returns (- int e) s3 \<and>
            fhs s3 = fhs s2 \<and>
            workQueue s3 = workQueue s2 \<and>
            trace s3 = trace s2 @
              [WriterCtor path LOCK_WHOLE (int_narrow t),
               Sys (SysOpen path (flags fi2) (Some mode)), NotifyProcessed path]"
    if "path \<noteq> '''' \<and> \<not> mutex_held path s2 \<and>
      sys pf (trace s2 @ [WriterCtor path LOCK_WHOLE (int_narrow t)])
        (SysOpen path (flags fi2) (Some mode)) = Err e"
    using that create_closure_err [of path s2 pf t fi2 mode e] by blast
  have c5: "\<exists>s'. cannyfs_open pf path fi s = Returns (0, fi\<lparr>fh := u64 (fst (getnewfh s))\<rparr>) s' \<and>
            fhs s' = (fhs (snd (getnewfh s)))[j := (fhs (snd (getnewfh s)) ! j)\<lparr>fd := int n\<rparr>] \<and>
            getfh_fi (fi\<lparr>fh := u64 (fst (getnewfh s))\<rparr>) s' = Returns (int n) s' \<and>
            workQueue s' = workQueue s \<and>
            trace s' = trace s @ [Sys (SysOpen path (flags fi) None), NotifyOpened j]"
    if a: "getcfh (u64 (fst (getnewfh s))) (snd (getnewfh s)) = Some j \<and>
      sys pf (trace s) (SysOpen path (flags fi) None) = Ok n"
  proof -
    define x where "x = u64 (fst (getnewfh s))"
    define s1 where "s1 = snd (getnewfh s)"
    define s' where "s' = emit (NotifyOpened j)
        ((emit (Sys (SysOpen path (flags fi) None)) s1)\<lparr>fhs := (fhs s1)[j := (fhs s1 ! j)\<lparr>fd := int n\<rparr>]\<rparr>)"
    from a have g: "getcfh x s1 = Some j" and o: "sys pf (trace s1) (SysOpen path (flags fi) None) = Ok n"
      by (simp_all add: x_def s1_def)
    have "on_cfh x (\<lambda>i. setfh i (int n)) (emit (Sys (SysOpen path (flags fi) None)) s1) = Returns () s'"
      using on_cfh_setfh [of x "emit (Sys (SysOpen path (flags fi) None)) s1" j "int n"] g
      by (simp add: s'_def)
    with o have r: "cannyfs_open pf path fi s = Returns (0, fi\<lparr>fh := x\<rparr>) s'"
      by (simp add: cannyfs_open_def bnd_def syscall_do_def x_def s1_def)
    have f: "fhs s' = (fhs s1)[j := (fhs s1 ! j)\<lparr>fd := int n\<rparr>]"
      by (simp add: s'_def)
    have q: "workQueue s' = workQueue s" and tr: "trace s' = trace s @ [Sys (SysOpen path (flags fi) None), NotifyOpened j]"
      by (simp_all add: s'_def s1_def)
    from g f have "getfh_fi (fi\<lparr>fh := x\<rparr>) s' = Returns (int n) s'"
      using getfh_after_setfh [of x s1 j s' n] by (simp add: getfh_fi_def)
    with r f q tr show ?thesis unfolding x_def s1_def by blast
  qed
  have c6: "\<exists>s'. cannyfs_open pf path fi s = Returns (- int e, fi\<lparr>fh := u64 (fst (getnewfh s))\<rparr>) s' \<and>
            fhs s' = fhs (snd (getnewfh s)) \<and>
            workQueue s' = workQueue s \<and>
            trace s' = trace s @ [Sys (SysOpen path (flags fi) None)]"
    if "sys pf (trace s) (SysOpen path (flags fi) None) = Err e"
    using that by (simp add: cannyfs_open_def bnd_def syscall_do_def)
  from c1 c2 c3 c4 c5 c6 show ?thesis by blast
qed

theorem create_open_flow_witness:
  "eagercreate (options (init_state (default_options True))) \<and>
   cannyfs_create (test_platform (ok_store 3)) ''/a'' 420 fi0 (init_state (default_options True)) =
     Returns (0, fi0)
       ((init_state (default_options True))
          \<lparr>fhs := [new_filehandle], eventId := 1,
           workQueue := [(1, FiClosure ''/a'' fi0 (CreateBody 420))]\<rparr>) \<and>
   \<not> eagercreate (options (init_state (default_options False))) \<and>
   (\<exists>s'. cannyfs_create (test_platform (ok_store 3)) ''/a'' 420 fi0
            (init_state (default_options False)) = Returns (0, fi0) s' \<and>
          getfh_fi fi0 s' = Returns 3 s' \<and> workQueue s' = [] \<and>
          trace s' = [WriterCtor ''/a'' LOCK_WHOLE 1, Sys (SysOpen ''/a'' 0 (Some 420)),
                      NotifyOpened 0, NotifyProcessed ''/a'']) \<and>
   getcfh (fh fi0) ((init_state (default_options True))\<lparr>fhs := [new_filehandle]\<rparr>) = Some 0 \<and>
   (\<exists>s3. run_closure (test_platform (ok_store 3)) (FiClosure ''/a'' fi0 (CreateBody 420)) 1
            ((init_state (default_options True))\<lparr>fhs := [new_filehandle]\<rparr>) = Returns 0 s3 \<and>
          fhs s3 = [new_filehandle\<lparr>fd := 3\<rparr>] \<and>
          getfh_fi fi0 s3 = Returns 3 s3 \<and> workQueue s3 = [] \<and>
          trace s3 = [WriterCtor ''/a'' LOCK_WHOLE 1, Sys (SysOpen ''/a'' 0 (Some 420)),
                      NotifyOpened 0, NotifyProcessed ''/a'']) \<and>
   (\<exists>s3. run_closure (test_platform (failing_store 2)) (FiClosure ''/a'' fi0 (CreateBody 420)) 1
            ((init_state (default_options True))\<lparr>fhs := [new_filehandle]\<rparr>) = Returns (- 2) s3 \<and>
          fhs s3 = [new_filehandle] \<and> workQueue s3 = [] \<and>
          trace s3 = [WriterCtor ''/a'' LOCK_WHOLE 1, Sys (SysOpen ''/a'' 0 (Some 420)),
                      NotifyProcessed ''/a'']) \<and>
   (\<exists>s'. cannyfs_open (test_platform (ok_store 3)) ''/a'' fi0 (init_state (default_options True)) =
            Returns (0, fi0) s' \<and>
          fhs s' = [new_filehandle\<lparr>fd := 3\<rparr>] \<and>
          getfh_fi fi0 s' = Returns 3 s' \<and> workQueue s' = [] \<and>
          trace s' = [Sys (SysOpen ''/a'' 0 None), NotifyOpened 0]) \<and>
   (\<exists>s'. cannyfs_open (test_platform (failing_store 2)) ''/a'' fi0 (init_state (default_options True)) =
            Returns (- 2, fi0) s' \<and>
          fhs s' = [new_filehandle] \<and> workQueue s' = [] \<and>
          trace s' = [Sys (SysOpen ''/a'' 0 None)])"
proof -
  have p1: "eagercreate (options (init_state (default_options True))) \<and>
   cannyfs_create (test_platform (ok_store 3)) ''/a'' 420 fi0 (init_state (default_options True)) =
     Returns (0, fi0)
       ((init_state (default_options True))
          \<lparr>fhs := [new_filehandle], eventId := 1,
           workQueue := [(1, FiClosure ''/a'' fi0 (CreateBody 420))]\<rparr>) \<and>
   getcfh (fh fi0) ((init_state (default_options True))\<lparr>fhs := [new_filehandle]\<rparr>) = Some 0 \<and>
   (\<exists>s3. run_closure (test_platform (ok_store 3)) (FiClosure ''/a'' fi0 (CreateBody 420)) 1
            ((init_state (default_options True))\<lparr>fhs := [new_filehandle]\<rparr>) = Returns 0 s3 \<and>
          fhs s3 = [new_filehandle\<lparr>fd := 3\<rparr>] \<and>
          getfh_fi fi0 s3 = Returns 3 s3 \<and> workQueue s3 = [] \<and>
          trace s3 = [WriterCtor ''/a'' LOCK_WHOLE 1, Sys (SysOpen ''/a'' 0 (Some 420)),
                      NotifyOpened 0, NotifyProcessed ''/a'']) \<and>
   (\<exists>s'. cannyfs_open (test_platform (ok_store 3)) ''/a'' fi0 (init_state (default_options True)) =
            Returns (0, fi0) s' \<and>
          fhs s' = [new_filehandle\<lparr>fd := 3\<rparr>] \<and>
          getfh_fi fi0 s' = Returns 3 s' \<and> workQueue s' = [] \<and>
          trace s' = [Sys (SysOpen ''/a'' 0 None), NotifyOpened 0])"
    using create_open_flow [where s = "init_state (default_options True)"
      and pf = "test_platform (ok_store 3)" and path = "''/a''" and mode = 420 and fi = fi0
      and ?s2.0 = "(init_state (default_options True))\<lparr>fhs := [new_filehandle]\<rparr>"
      and ?fi2.0 = fi0 and i = 0 and t = 1 and n = 3 and e = 2 and j = 0]
    by (simp add: init_state_def default_options_def mutex_held_def getnewfh_def
      test_platform_def ok_store_def fi0_def llong_wrap_def int_narrow_def u64_def getcfh_def)
  have p2: "(\<exists>s3. run_closure (test_platform (failing_store 2)) (FiClosure ''/a'' fi0 (CreateBody 420)) 1
            ((init_state (default_options True))\<lparr>fhs := [new_filehandle]\<rparr>) = Returns (- 2) s3 \<and>
          fhs s3 = [new_filehandle] \<and> workQueue s3 = [] \<and>
          trace s3 = [WriterCtor ''/a'' LOCK_WHOLE 1, Sys (SysOpen ''/a'' 0 (Some 420)),
                      NotifyProcessed ''/a'']) \<and>
   (\<exists>s'. cannyfs_open (test_platform (failing_store 2)) ''/a'' fi0 (init_state (default_options True)) =
            Returns (- 2, fi0) s' \<and>
          fhs s' = [new_filehandle] \<and> workQueue s' = [] \<and>
          trace s' = [Sys (SysOpen ''/a'' 0 None)])"
    using create_open_flow [where s = "init_state (default_options True)"
      and pf = "test_platform (failing_store 2)" and path = "''/a''" and mode = 420 and fi = fi0
      and ?s2.0 = "(init_state (default_options True))\<lparr>fhs := [new_filehandle]\<rparr>"
      and ?fi2.0 = fi0 and i = 0 and t = 1 and n = 3 and e = 2 and j = 0]
    by (simp add: init_state_def default_options_def mutex_held_def getnewfh_def
      test_platform_def failing_store_def fi0_def llong_wrap_def int_narrow_def u64_def getcfh_def)
  have p3: "\<not> eagercreate (options (init_state (default_options False))) \<and>
   cannyfs_create (test_platform (ok_store 3)) ''/a'' 420 fi0 (init_state (default_options False)) =
     bnd (run_closure (test_platform (ok_store 3)) (FiClosure ''/a'' fi0 (CreateBody 420)) 1)
       (\<lambda>res. Returns (res, fi0))
       ((init_state (default_options False))\<lparr>fhs := [new_filehandle], eventId := 1\<rparr>) \<and>
   (\<exists>s3. run_closure (test_platform (ok_store 3)) (FiClosure ''/a'' fi0 (CreateBody 420)) 1
            ((init_state (default_options False))\<lparr>fhs := [new_filehandle], eventId := 1\<rparr>) =
            Returns 0 s3 \<and>
          fhs s3 = [new_filehandle\<lparr>fd := 3\<rparr>] \<and>
          getfh_fi fi0 s3 = Returns 3 s3 \<and> workQueue s3 = [] \<and>
          trace s3 = [WriterCtor ''/a'' LOCK_WHOLE 1, Sys (SysOpen ''/a'' 0 (Some 420)),
                      NotifyOpened 0, NotifyProcessed ''/a''])"
    using create_open_flow [where s = "init_state (default_options False)"
      and pf = "test_platform (ok_store 3)" and path = "''/a''" and mode = 420 and fi = fi0
      and ?s2.0 = "(init_state (default_options False))\<lparr>fhs := [new_filehandle], eventId := 1\<rparr>"
      and ?fi2.0 = fi0 and i = 0 and t = 1 and n = 3 and e = 2 and j = 0]
    by (simp add: init_state_def default_options_def mutex_held_def getnewfh_def
      test_platform_def ok_store_def fi0_def llong_wrap_def int_narrow_def u64_def getcfh_def)
  from p3 have p4: "\<exists>s'. cannyfs_create (test_platform (ok_store 3)) ''/a'' 420 fi0
            (init_state (default_options False)) = Returns (0, fi0) s' \<and>
          getfh_fi fi0 s' = Returns 3 s' \<and> workQueue s' = [] \<and>
          trace s' = [WriterCtor ''/a'' LOCK_WHOLE 1, Sys (SysOpen ''/a'' 0 (Some 420)),
                      NotifyOpened 0, NotifyProcessed ''/a'']"
    by (auto simp: bnd_def)
  from p1 p2 p3 p4 show ?thesis by blast
qed

subsection \<open>The handle table\<close>

text \<open>A failed \<^verbatim>\<open>open\<close> leaves one more unbound slot in the table and touches no other.\<close>

lemma table_step:
  "table_run k s \<Longrightarrow>
     \<exists>s'. do_call (test_platform path_store) (Open ''/x'' fi) s = Some s' \<and> table_run (Suc k) s'"
  by (simp add: table_run_def cannyfs_open_def getnewfh_def bnd_def syscall_do_def returned_def
      test_platform_def path_store_def emit_def replicate_append_same)

lemma table_steps:
  "table_run k s \<Longrightarrow>
     \<exists>s'. run_calls (test_platform path_store) (replicate n (Open ''/x'' fi)) s = Some s' \<and>
          table_run (k + n) s'"
proof (induction n arbitrary: k s)
  case 0
  then show ?case by simp
next
  case (Suc n)
  from table_step [OF Suc.prems, of fi] obtain s1 where
    s1: "do_call (test_platform path_store) (Open ''/x'' fi) s = Some s1"
    and t1: "table_run (Suc k) s1" by blast
  from Suc.IH [OF t1] obtain s' where
    "run_calls (test_platform path_store) (replicate n (Open ''/x'' fi)) s1 = Some s'"
    "table_run (Suc k + n) s'" by blast
  with s1 show ?case by simp
qed

lemma table_start:
  "\<exists>s. do_call (test_platform path_store) (Open ''/a'' fi) (init_state opts) = Some s \<and>
       table_run 0 s"
  by (simp add: table_run_def cannyfs_open_def getnewfh_def bnd_def syscall_do_def returned_def
      test_platform_def path_store_def emit_def init_state_def on_cfh_def getcfh_def setfh_def
      u64_def int_narrow_def)

lemma narrow_wrap: "int_narrow (int (u64 4294967296)) = 0"
  by (simp add: u64_def int_narrow_def)

text \<open>In a table of \<open>2 ^ 32\<close> slots the next handle has the number \<open>2 ^ 32\<close>, which
  \<^verbatim>\<open>getcfh(int fd)\<close> receives as 0: a successful \<^verbatim>\<open>open\<close> stores its descriptor in slot
  0.\<close>

lemma table_rebind:
  assumes t: "table_run 4294967295 s"
  shows "\<exists>s'. cannyfs_open (test_platform path_store) ''/b'' fi s =
                 Returns (0, fi\<lparr>fh := 4294967296\<rparr>) s' \<and>
              getfh 0 s = Returns 3 s \<and> getfh 0 s' = Returns 5 s' \<and>
              trace s' = trace s @ [Sys (SysOpen ''/b'' (flags fi) None), NotifyOpened 0]"
proof -
  from t have f: "freefhs s = []"
    and h: "fhs s = new_filehandle\<lparr>fd := 3\<rparr> # replicate 4294967295 new_filehandle"
    by (simp_all add: table_run_def)
  from h have len: "length (fhs s) = 4294967296" by simp
  from f len have n1: "fst (getnewfh s) = 4294967296"
    and n2: "snd (getnewfh s) = s\<lparr>fhs := fhs s @ [new_filehandle]\<rparr>"
    by (simp_all add: getnewfh_def)
  have g: "getcfh (u64 4294967296) (emit e (s\<lparr>fhs := fhs s @ [new_filehandle]\<rparr>)) = Some 0" for e
    using len by (simp add: getcfh_def narrow_wrap)
  have o: "sys (test_platform path_store) (trace s) (SysOpen ''/b'' (flags fi) None) = Ok 5"
    by (simp add: test_platform_def path_store_def)
  have u: "u64 4294967296 = 4294967296" by (simp add: u64_def)
  have r: "cannyfs_open (test_platform path_store) ''/b'' fi s =
             Returns (0, fi\<lparr>fh := 4294967296\<rparr>)
               (emit (NotifyOpened 0)
                 ((emit (Sys (SysOpen ''/b'' (flags fi) None)) (s\<lparr>fhs := fhs s @ [new_filehandle]\<rparr>))
                    \<lparr>fhs := (fhs s @ [new_filehandle])[0 := ((fhs s @ [new_filehandle]) ! 0)\<lparr>fd := 5\<rparr>]\<rparr>))"
    using o on_cfh_setfh [OF g [of "Sys (SysOpen ''/b'' (flags fi) None)"], of 5]
    by (simp add: cannyfs_open_def n1 n2 bnd_def syscall_do_def u)
  have b: "getfh 0 s = Returns 3 s"
    using h by (simp add: getfh_def)
  have a: "getfh 0 (emit (NotifyOpened 0)
                 ((emit (Sys (SysOpen ''/b'' (flags fi) None)) (s\<lparr>fhs := fhs s @ [new_filehandle]\<rparr>))
                    \<lparr>fhs := (fhs s @ [new_filehandle])[0 := ((fhs s @ [new_filehandle]) ! 0)\<lparr>fd := 5\<rparr>]\<rparr>)) =
           Returns 5 (emit (NotifyOpened 0)
                 ((emit (Sys (SysOpen ''/b'' (flags fi) None)) (s\<lparr>fhs := fhs s @ [new_filehandle]\<rparr>))
                    \<lparr>fhs := (fhs s @ [new_filehandle])[0 := ((fhs s @ [new_filehandle]) ! 0)\<lparr>fd := 5\<rparr>]\<rparr>))"
    using h by (simp add: getfh_def)
  from r a b show ?thesis by simp
qed

text \<open>C6, as the code has it. On a store whose \<^verbatim>\<open>open\<close> yields descriptor 3 for \<open>''/a''\<close>
  and 5 for \<open>''/b''\<close> and fails for any other path:

  \<^item> \<^verbatim>\<open>cannyfs_create\<close> of \<open>''/a''\<close> hands out handle 0 with its descriptor unbound;
    \<^verbatim>\<open>getfh\<close> on the handle blocks, but \<^verbatim>\<open>cannyfs_fgetattr\<close> on it neither blocks nor
    reads the descriptor: it returns having called \<^verbatim>\<open>fstat\<close> on the handle's number, 0.
    Once a worker has bound the handle to 3, \<^verbatim>\<open>cannyfs_fgetattr\<close> still calls
    \<^verbatim>\<open>fstat\<close> on 0.

  \<^item> after \<^verbatim>\<open>open\<close> of \<open>''/a''\<close>, which binds handle 0 to 3, and 4294967295 calls of
    \<^verbatim>\<open>open\<close> that fail, \<^verbatim>\<open>getfh\<close> on handle 0 returns 3; \<^verbatim>\<open>open\<close> of \<open>''/b''\<close> then
    returns handle 4294967296 having stored its descriptor in slot 0, and \<^verbatim>\<open>getfh\<close> on
    handle 0 returns 5.\<close>

theorem handle_rebound:
  "(\<exists>s1 s2 s3 s4.
      cannyfs_create (test_platform path_store) ''/a'' 420 fi0 (init_state (default_options True)) =
        Returns (0, fi0) s1 \<and>
      getfh_fi fi0 s1 = Blocks s1 \<and>
      cannyfs_fgetattr (test_platform path_store) ''/a'' fi0 s1 = Returns (0, Some 0) s2 \<and>
      trace s2 = [ReaderCtor ''/a'' JUST_BARRIER, Sys (SysFstat 0)] \<and>
      run_task (test_platform path_store) 0 s2 = Returns 0 s3 \<and>
      getfh_fi fi0 s3 = Returns 3 s3 \<and>
      cannyfs_fgetattr (test_platform path_store) ''/a'' fi0 s3 = Returns (0, Some 0) s4 \<and>
      trace s4 = trace s3 @ [ReaderCtor ''/a'' JUST_BARRIER, Sys (SysFstat 0)]) \<and>
   (\<exists>s s'.
      run_calls (test_platform path_store)
        (Open ''/a'' fi0 # replicate 4294967295 (Open ''/x'' fi0))
        (init_state (default_options ec)) = Some s \<and>
      getfh_fi fi0 s = Returns 3 s \<and>
      cannyfs_open (test_platform path_store) ''/b'' fi0 s =
        Returns (0, fi0\<lparr>fh := 4294967296\<rparr>) s' \<and>
      trace s' = trace s @ [Sys (SysOpen ''/b'' 0 None), NotifyOpened 0] \<and>
      getfh_fi fi0 s' = Returns 5 s' \<and>
      getfh_fi (fi0\<lparr>fh := 4294967296\<rparr>) s' = Returns 5 s')"
proof (rule conjI)
  show "\<exists>s1 s2 s3 s4.
      cannyfs_create (test_platform path_store) ''/a'' 420 fi0 (init_state (default_options True)) =
        Returns (0, fi0) s1 \<and>
      getfh_fi fi0 s1 = Blocks s1 \<and>
      cannyfs_fgetattr (test_platform path_store) ''/a'' fi0 s1 = Returns (0, Some 0) s2 \<and>
      trace s2 = [ReaderCtor ''/a'' JUST_BARRIER, Sys (SysFstat 0)] \<and>
      run_task (test_platform path_store) 0 s2 = Returns 0 s3 \<and>
      getfh_fi fi0 s3 = Returns 3 s3 \<and>
      cannyfs_fgetattr (test_platform path_store) ''/a'' fi0 s3 = Returns (0, Some 0) s4 \<and>
      trace s4 = trace s3 @ [ReaderCtor ''/a'' JUST_BARRIER, Sys (SysFstat 0)]"
    by (simp add: cannyfs_create_def cannyfs_add_write_def cannyfs_fgetattr_def run_task_def
        reader_just_barrier writer_real_path writer_dtor_owned bnd_def syscall_do_def
        getnewfh_def init_state_def default_options_def test_platform_def path_store_def
        fi0_def u64_def int_narrow_def llong_wrap_def getfh_fi_def on_cfh_def getcfh_def
        getfh_def setfh_def new_filehandle_def mutex_held_def reader_waits_def emit_def
        set_locked_def cannyfs_reader_dtor_def unique_lock_dtor_def no_lock_def
        del: cannyfs_writer_dtor.simps)
next
  from table_start [of fi0 "default_options ec"] obtain s0 where
    s0: "do_call (test_platform path_store) (Open ''/a'' fi0) (init_state (default_options ec)) = Some s0"
    and t0: "table_run 0 s0" by blast
  from table_steps [OF t0, of 4294967295 fi0] obtain s where
    s: "run_calls (test_platform path_store) (replicate 4294967295 (Open ''/x'' fi0)) s0 = Some s"
    and t: "table_run 4294967295 s" by auto
  from table_rebind [OF t, of fi0] obtain s' where
    r: "cannyfs_open (test_platform path_store) ''/b'' fi0 s = Returns (0, fi0\<lparr>fh := 4294967296\<rparr>) s'"
    and b: "getfh 0 s = Returns 3 s" and a: "getfh 0 s' = Returns 5 s'"
    and tr: "trace s' = trace s @ [Sys (SysOpen ''/b'' (flags fi0) None), NotifyOpened 0]"
    by blast
  from b have l0: "0 < length (fhs s)" by (simp add: getfh_def split: if_splits)
  from a have l1: "0 < length (fhs s')" by (simp add: getfh_def split: if_splits)
  from b l0 have b': "getfh_fi fi0 s = Returns 3 s"
    by (simp add: getfh_fi_def on_cfh_def getcfh_def fi0_def int_narrow_def)
  from a l1 have a': "getfh_fi fi0 s' = Returns 5 s'"
    by (simp add: getfh_fi_def on_cfh_def getcfh_def fi0_def int_narrow_def)
  from a l1 have a'': "getfh_fi (fi0\<lparr>fh := 4294967296\<rparr>) s' = Returns 5 s'"
    by (simp add: getfh_fi_def on_cfh_def getcfh_def int_narrow_def)
  from s0 s have "run_calls (test_platform path_store)
        (Open ''/a'' fi0 # replicate 4294967295 (Open ''/x'' fi0))
        (init_state (default_options ec)) = Some s" by simp
  with b' r tr a' a'' show "\<exists>s s'.
      run_calls (test_platform path_store)
        (Open ''/a'' fi0 # replicate 4294967295 (Open ''/x'' fi0))
        (init_state (default_options ec)) = Some s \<and>
      getfh_fi fi0 s = Returns 3 s \<and>
      cannyfs_open (test_platform path_store) ''/b'' fi0 s =
        Returns (0, fi0\<lparr>fh := 4294967296\<rparr>) s' \<and>
      trace s' = trace s @ [Sys (SysOpen ''/b'' 0 None), NotifyOpened 0] \<and>
      getfh_fi fi0 s' = Returns 5 s' \<and>
      getfh_fi (fi0\<lparr>fh := 4294967296\<rparr>) s' = Returns 5 s'"
    by (auto simp: fi0_def)
qed

subsection \<open>The access callback\<close>

text \<open>C8. For every path and mask: with \<^verbatim>\<open>veryeageraccess\<close>, \<^verbatim>\<open>cannyfs_access\<close> returns 0 and
  leaves the state as it was, so no barrier is constructed. Otherwise a reader barrier
  on the path is constructed in \<^verbatim>\<open>JUST_BARRIER\<close> mode; once it lets the caller through,
  \<^verbatim>\<open>eageraccess\<close> makes the callback return 0 with no system call made, and without
  \<^verbatim>\<open>eageraccess\<close> the \<^verbatim>\<open>access\<close> system call is made after the barrier and its failure is
  returned as the negated \<^verbatim>\<open>errno\<close> (0 on success). Where the barrier does not let the
  caller through, the callback is suspended in it.\<close>

theorem access_policy:
  "(veryeageraccess (options s) \<longrightarrow> cannyfs_access pf path amask s = Returns 0 s) \<and>
   (\<not> veryeageraccess (options s) \<and> \<not> mutex_held path s \<and> \<not> reader_waits (Some path) s \<and>
      eageraccess (options s) \<longrightarrow>
        cannyfs_access pf path amask s = Returns 0 (emit (ReaderCtor path JUST_BARRIER) s)) \<and>
   (\<not> veryeageraccess (options s) \<and> \<not> mutex_held path s \<and> \<not> reader_waits (Some path) s \<and>
      \<not> eageraccess (options s) \<longrightarrow>
        cannyfs_access pf path amask s =
          Returns (case sys pf (trace s @ [ReaderCtor path JUST_BARRIER]) (SysAccess path amask) of
                     Ok n \<Rightarrow> 0 | Err e \<Rightarrow> - int e)
            (emit (Sys (SysAccess path amask)) (emit (ReaderCtor path JUST_BARRIER) s))) \<and>
   (\<not> veryeageraccess (options s) \<and> (mutex_held path s \<or> reader_waits (Some path) s) \<longrightarrow>
        cannyfs_access pf path amask s = Blocks (emit (ReaderCtor path JUST_BARRIER) s))"
  by (auto simp: cannyfs_access_def reader_just_barrier bnd_def syscall_do_def emit_def
      cannyfs_reader_dtor_def unique_lock_dtor_def no_lock_def split: sysres.splits)

theorem access_policy_witness:
  "veryeageraccess (options (init_state (default_options True))) \<and>
   cannyfs_access (test_platform (failing_store 2)) ''/a'' 4 (init_state (default_options True)) =
     Returns 0 (init_state (default_options True)) \<and>
   cannyfs_access (test_platform (failing_store 2)) ''/a'' 4
       (init_state ((default_options True)\<lparr>veryeageraccess := False\<rparr>)) =
     Returns 0 (emit (ReaderCtor ''/a'' JUST_BARRIER)
                  (init_state ((default_options True)\<lparr>veryeageraccess := False\<rparr>))) \<and>
   cannyfs_access (test_platform (failing_store 2)) ''/a'' 4
       (init_state ((default_options True)\<lparr>veryeageraccess := False, eageraccess := False\<rparr>)) =
     Returns (- 2)
       (emit (Sys (SysAccess ''/a'' 4)) (emit (ReaderCtor ''/a'' JUST_BARRIER)
          (init_state ((default_options True)\<lparr>veryeageraccess := False, eageraccess := False\<rparr>)))) \<and>
   cannyfs_access (test_platform (failing_store 2)) ''/a'' 4
       (busy_state\<lparr>options := (default_options True)\<lparr>veryeageraccess := False\<rparr>\<rparr>) =
     Blocks (emit (ReaderCtor ''/a'' JUST_BARRIER)
               (busy_state\<lparr>options := (default_options True)\<lparr>veryeageraccess := False\<rparr>\<rparr>))"
  using access_policy [of "init_state (default_options True)" "test_platform (failing_store 2)" "''/a''" 4]
    access_policy [of "init_state ((default_options True)\<lparr>veryeageraccess := False\<rparr>)"
      "test_platform (failing_store 2)" "''/a''" 4]
    access_policy [of "init_state ((default_options True)\<lparr>veryeageraccess := False, eageraccess := False\<rparr>)"
      "test_platform (failing_store 2)" "''/a''" 4]
    access_policy [of "busy_state\<lparr>options := (default_options True)\<lparr>veryeageraccess := False\<rparr>\<rparr>"
      "test_platform (failing_store 2)" "''/a''" 4]
  by (simp add: init_state_def default_options_def busy_state_def mutex_held_def
      reader_waits_def test_platform_def failing_store_def)

subsection \<open>The fsync callback\<close>

text \<open>C9. With \<^verbatim>\<open>ignorefsync\<close>, \<^verbatim>\<open>cannyfs_fsync\<close> returns 0 and leaves the state as it was:
  no system call is made and nothing is queued. Without \<^verbatim>\<open>ignorefsync\<close> and with
  \<^verbatim>\<open>eagerfsync\<close>, it returns 0 having taken a ticket and queued one closure; that closure,
  run on a state where the path's mutex is free and the handle is bound to descriptor
  \<open>f\<close>, makes exactly one system call, \<^verbatim>\<open>fdatasync(f)\<close> when \<^verbatim>\<open>HAVE_FDATASYNC\<close> is defined
  and \<^verbatim>\<open>isdatasync\<close> is not 0 and \<^verbatim>\<open>fsync(f)\<close> otherwise, inside a writer barrier on the
  path, and yields 0 or the negated \<^verbatim>\<open>errno\<close>.\<close>

theorem fsync_policy:
  "(ignorefsync (options s) \<longrightarrow> cannyfs_fsync pf cpath ids fi s = Returns 0 s) \<and>
   (\<not> ignorefsync (options s) \<and> eagerfsync (options s) \<longrightarrow>
      cannyfs_fsync pf cpath ids fi s =
        Returns 0 (s\<lparr>eventId := llong_wrap (eventId s + 1),
                     workQueue := workQueue s @
                       [(llong_wrap (eventId s + 1), FiClosure cpath fi (FsyncBody ids))]\<rparr>)) \<and>
   (cpath \<noteq> '''' \<and> \<not> mutex_held cpath s2 \<and> getfh_fi fi s2 = Returns f s2 \<longrightarrow>
      (\<exists>s3. run_closure pf (FiClosure cpath fi (FsyncBody ids)) t s2 =
               Returns (errno_ret (sys pf (trace s2 @ [WriterCtor cpath LOCK_WHOLE (int_narrow t)])
                                     (if have_fdatasync pf \<and> ids \<noteq> 0 then SysFdatasync f else SysFsync f))) s3 \<and>
            trace s3 = trace s2 @
              [WriterCtor cpath LOCK_WHOLE (int_narrow t),
               Sys (if have_fdatasync pf \<and> ids \<noteq> 0 then SysFdatasync f else SysFsync f),
               NotifyProcessed cpath]))"
proof (intro conjI impI)
  assume "ignorefsync (options s)"
  then show "cannyfs_fsync pf cpath ids fi s = Returns 0 s"
    by (simp add: cannyfs_fsync_def)
next
  assume "\<not> ignorefsync (options s) \<and> eagerfsync (options s)"
  then show "cannyfs_fsync pf cpath ids fi s =
        Returns 0 (s\<lparr>eventId := llong_wrap (eventId s + 1),
                     workQueue := workQueue s @
                       [(llong_wrap (eventId s + 1), FiClosure cpath fi (FsyncBody ids))]\<rparr>)"
    by (simp add: cannyfs_fsync_def cannyfs_add_write_def)
next
  assume a: "cpath \<noteq> '''' \<and> \<not> mutex_held cpath s2 \<and> getfh_fi fi s2 = Returns f s2"
  then have frame: "\<And>s'. fhs s' = fhs s2 \<Longrightarrow> getfh_fi fi s' = Returns f s'"
    using getfh_fi_frame by blast
  show "\<exists>s3. run_closure pf (FiClosure cpath fi (FsyncBody ids)) t s2 =
               Returns (errno_ret (sys pf (trace s2 @ [WriterCtor cpath LOCK_WHOLE (int_narrow t)])
                                     (if have_fdatasync pf \<and> ids \<noteq> 0 then SysFdatasync f else SysFsync f))) s3 \<and>
            trace s3 = trace s2 @
              [WriterCtor cpath LOCK_WHOLE (int_narrow t),
               Sys (if have_fdatasync pf \<and> ids \<noteq> 0 then SysFdatasync f else SysFsync f),
               NotifyProcessed cpath]"
    using a
    by (simp add: writer_real_path bnd_def frame syscall_do_def writer_dtor_owned emit_def
        del: cannyfs_writer_dtor.simps)
qed

theorem fsync_policy_witness:
  "ignorefsync (options (init_state (default_options True))) \<and>
   cannyfs_fsync (test_platform (ok_store 3)) ''/a'' 1 fi0 (init_state (default_options True)) =
     Returns 0 (init_state (default_options True)) \<and>
   cannyfs_fsync (test_platform (ok_store 3)) ''/a'' 1 fi0
       (init_state ((default_options True)\<lparr>ignorefsync := False\<rparr>)) =
     Returns 0 ((init_state ((default_options True)\<lparr>ignorefsync := False\<rparr>))
                  \<lparr>eventId := 1, workQueue := [(1, FiClosure ''/a'' fi0 (FsyncBody 1))]\<rparr>) \<and>
   getfh_fi fi0 (bound_state (default_options True) 7) =
     Returns 7 (bound_state (default_options True) 7) \<and>
   (\<exists>s3. run_closure (test_platform (ok_store 3)) (FiClosure ''/a'' fi0 (FsyncBody 1)) 1
            (bound_state (default_options True) 7) = Returns 0 s3 \<and>
         trace s3 = [WriterCtor ''/a'' LOCK_WHOLE 1, Sys (SysFdatasync 7), NotifyProcessed ''/a''])"
  using fsync_policy [of "init_state (default_options True)" "test_platform (ok_store 3)" "''/a''" 1 fi0
      "bound_state (default_options True) 7" 7 1]
    fsync_policy [of "init_state ((default_options True)\<lparr>ignorefsync := False\<rparr>)"
      "test_platform (ok_store 3)" "''/a''" 1 fi0 "bound_state (default_options True) 7" 7 1]
  by (simp add: init_state_def default_options_def bound_state_def mutex_held_def
      test_platform_def ok_store_def fi0_def getfh_fi_def on_cfh_def getfh_def getcfh_def new_filehandle_def
      llong_wrap_def int_narrow_def errno_ret_def)

subsection \<open>The write callback\<close>

text \<open>C10. For every input, \<^verbatim>\<open>cannyfs_write\<close> ends the process in \<^verbatim>\<open>abort()\<close> with the state
  as it was on entry: the \<^verbatim>\<open>pwrite\<close> that follows in the source is never made, no other
  system call is, and the callback does not return.\<close>

theorem write_aborts: "cannyfs_write pf path buf sz offs fi s = Aborts s"
  by (simp add: cannyfs_write_def bnd_def abort_def)

end
